theory Spec2Isabelle
  imports Complex_Main
begin

section \<open>Host values and C conversions\<close>

text \<open>
  Both MEX entry points (\<^verbatim>\<open>dtt1D.cpp\<close>, \<^verbatim>\<open>dtt2D.cpp\<close>) are one straight-line
  \<^verbatim>\<open>mexFunction\<close> each. A call either runs to its \<^verbatim>\<open>return\<close> or is aborted by
  \<^verbatim>\<open>mexErrMsgTxt\<close>, which does not return to the MEX function. An error is the message
  handed to \<^verbatim>\<open>mexErrMsgTxt\<close>; a conversion or a read whose behaviour the C standard leaves
  undefined is an outcome of its own.
\<close>

datatype mex_error = mexErrMsgTxt string | undefined_behaviour

text \<open>
  An \<^verbatim>\<open>mxArray\<close> as far as the entry points inspect it. The fields carry the names of the
  MEX API calls that read them. \<open>mxGetPr\<close> is the sequence of values found when the data
  pointer is read as an array of \<^verbatim>\<open>double\<close>. A finite double is its value, a real number;
  infinities and NaN are not represented (their conversion to \<^verbatim>\<open>int\<close> is undefined in C).
\<close>

record mxArray =
  mxIsDouble :: bool
  mxIsComplex :: bool
  mxGetDimensions :: "nat list"
  mxGetPr :: "real list"

definition mxGetNumberOfElements :: "mxArray \<Rightarrow> nat" where
  "mxGetNumberOfElements a = prod_list (mxGetDimensions a)"

definition mxGetNumberOfDimensions :: "mxArray \<Rightarrow> int" where
  "mxGetNumberOfDimensions a = int (length (mxGetDimensions a))"

text \<open>Reading element \<open>i\<close> through a \<^verbatim>\<open>double *\<close>; outside the buffer the read is undefined.\<close>

definition read_double :: "real list \<Rightarrow> nat \<Rightarrow> mex_error + real" where
  "read_double p i = (if i < length p then Inr (p ! i) else Inl undefined_behaviour)"

text \<open>Reading \<^verbatim>\<open>dims[i]\<close>; MATLAB arrays always have at least two dimensions.\<close>

definition read_dim :: "nat list \<Rightarrow> nat \<Rightarrow> mex_error + nat" where
  "read_dim d i = (if i < length d then Inr (d ! i) else Inl undefined_behaviour)"

text \<open>
  Conversion of a \<^verbatim>\<open>double\<close> to the 32-bit \<^verbatim>\<open>int\<close>: the fractional part is discarded
  (truncation toward zero); the behaviour is undefined when the integral part is not
  representable.
\<close>

definition c_trunc :: "real \<Rightarrow> int" where
  "c_trunc v = (if 0 \<le> v then \<lfloor>v\<rfloor> else \<lceil>v\<rceil>)"

definition int_of_double :: "real \<Rightarrow> mex_error + int" where
  "int_of_double v =
     (let t = c_trunc v
      in if - (2 ^ 31) \<le> t \<and> t \<le> 2 ^ 31 - 1 then Inr t else Inl undefined_behaviour)"

text \<open>Conversion \<^verbatim>\<open>(int) dims[i]\<close> of an \<^verbatim>\<open>mwSize\<close>: reduced modulo \<open>2 ^ 32\<close> into the signed range.\<close>

definition int_of_mwSize :: "nat \<Rightarrow> int" where
  "int_of_mwSize d = (int d + 2 ^ 31) mod 2 ^ 32 - 2 ^ 31"

text \<open>The product \<^verbatim>\<open>N = NX*NY\<close> of two \<^verbatim>\<open>int\<close>; signed overflow is undefined.\<close>

definition int_mult :: "int \<Rightarrow> int \<Rightarrow> mex_error + int" where
  "int_mult a b =
     (if - (2 ^ 31) \<le> a * b \<and> a * b \<le> 2 ^ 31 - 1 then Inr (a * b) else Inl undefined_behaviour)"

section \<open>The transform backend as seen from the entry points\<close>

text \<open>
  Modelled from the spec: the header \<^verbatim>\<open>fftw3.h\<close> is not part of the sources. The eight
  kinds the entry points name are eight distinct tags (``one of 8 opaque tags'').
\<close>

datatype fftw_r2r_kind =
    FFTW_REDFT00 | FFTW_REDFT10 | FFTW_REDFT01 | FFTW_REDFT11
  | FFTW_RODFT00 | FFTW_RODFT10 | FFTW_RODFT01 | FFTW_RODFT11

text \<open>
  The calls with an effect outside the function, in the order a run makes them. The
  arguments are those of the source call, without the null \<^verbatim>\<open>inembed\<close>/\<^verbatim>\<open>onembed\<close>, the
  output pointer (always the array just created) and the constant flag \<^verbatim>\<open>FFTW_ESTIMATE\<close>:
  \<^item> \<open>mxCreateNumericArray dims\<close>
  \<^item> \<open>fftw_malloc\<close> (the one-element kind array of the 1D entry point)
  \<^item> \<open>fftw_plan_many_r2r rank n[0] howmany in istride idist ostride odist kind[0]\<close>
  \<^item> \<open>fftw_plan_r2r_2d n0 n1 in kind0 kind1\<close>
  \<^item> \<open>fftw_execute\<close>, \<open>fftw_destroy_plan\<close>, \<open>fftw_free\<close>
\<close>

datatype effect =
    mxCreateNumericArray "nat list"
  | fftw_malloc
  | fftw_plan_many_r2r int int int "real list" int int int int fftw_r2r_kind
  | fftw_plan_r2r_2d int int "real list" fftw_r2r_kind fftw_r2r_kind
  | fftw_execute
  | fftw_destroy_plan
  | fftw_free

type_synonym run = "effect list \<times> (mex_error + unit)"

section \<open>dtt1D.cpp\<close>

text \<open>Lines 56--60: number of inputs and outputs.\<close>

definition check_inputs_outputs_1D :: "int \<Rightarrow> int \<Rightarrow> mex_error + unit" where
  "check_inputs_outputs_1D nlhs nrhs =
     (if \<not> (nrhs = 2 \<or> nrhs = 3) then Inl (mexErrMsgTxt ''Two or three inputs are required.'')
      else if nlhs \<noteq> 1 then Inl (mexErrMsgTxt ''One output is required.'')
      else Inr ())"

text \<open>Lines 67--78: the DTT type input, converted to \<^verbatim>\<open>int\<close> and then checked.\<close>

definition get_DTT_type_1D :: "mxArray \<Rightarrow> mex_error + int" where
  "get_DTT_type_1D p1 =
     (let check_el_num = mxGetNumberOfElements p1
      in if \<not> (mxIsDouble p1 \<and> \<not> mxIsComplex p1 \<and> check_el_num = 1)
         then Inl (mexErrMsgTxt ''Input for DTT_TYPE must be real, scalar, and double precision.'')
         else case read_double (mxGetPr p1) 0 of
                Inl e \<Rightarrow> Inl e
              | Inr v \<Rightarrow>
                  (case int_of_double v of
                     Inl e \<Rightarrow> Inl e
                   | Inr DTT_type \<Rightarrow>
                       if \<not> (DTT_type = 1 \<or> DTT_type = 2 \<or> DTT_type = 3 \<or> DTT_type = 4 \<or>
                             DTT_type = 5 \<or> DTT_type = 6 \<or> DTT_type = 7 \<or> DTT_type = 8)
                       then Inl (mexErrMsgTxt ''Input for DTT_TYPE must be an integer between 1 and 8.'')
                       else Inr DTT_type))"

text \<open>
  Lines 44 and 85--104: the DIM input, default 1. The type test of line 91 is written on
  \<^verbatim>\<open>prhs[1]\<close>; of \<^verbatim>\<open>prhs[2]\<close> only the number of elements is read.
\<close>

definition get_DIM :: "mxArray list \<Rightarrow> mex_error + int" where
  "get_DIM prhs =
     (if int (length prhs) = 3 then
        (let check_el_num = mxGetNumberOfElements (prhs ! 2)
         in if \<not> (mxIsDouble (prhs ! 1) \<and> \<not> mxIsComplex (prhs ! 1) \<and> check_el_num = 1)
            then Inl (mexErrMsgTxt ''Input for DIM must be real, scalar, and double precision.'')
            else case read_double (mxGetPr (prhs ! 2)) 0 of
                   Inl e \<Rightarrow> Inl e
                 | Inr v \<Rightarrow>
                     (case int_of_double v of
                        Inl e \<Rightarrow> Inl e
                      | Inr DIM \<Rightarrow>
                          if \<not> (DIM = 1 \<or> DIM = 2)
                          then Inl (mexErrMsgTxt ''Input for DIM must be 1 or 2.'')
                          else Inr DIM))
      else Inr 1)"

text \<open>Lines 111--126: the input array; yields \<open>(dims, NX, NY)\<close>.\<close>

definition get_input_1D :: "mxArray \<Rightarrow> mex_error + (nat list \<times> int \<times> int)" where
  "get_input_1D p0 =
     (if \<not> (mxIsDouble p0 \<and> \<not> mxIsComplex p0)
      then Inl (mexErrMsgTxt ''Input array must be double precision and real.'')
      else let numdims = mxGetNumberOfDimensions p0
           in if numdims > 2 then Inl (mexErrMsgTxt ''Input array must be 1D or 2D.'')
              else let dims = mxGetDimensions p0
                   in case read_dim dims 0 of
                        Inl e \<Rightarrow> Inl e
                      | Inr d0 \<Rightarrow>
                          (case read_dim dims 1 of
                             Inl e \<Rightarrow> Inl e
                           | Inr d1 \<Rightarrow>
                               (let NX = int_of_mwSize d0; NY = int_of_mwSize d1
                                in case int_mult NX NY of
                                     Inl e \<Rightarrow> Inl e
                                   | Inr N \<Rightarrow> Inr (dims, NX, NY))))"

text \<open>Lines 129--134: a single row or column forces the DIM.\<close>

definition force_DIM :: "int \<Rightarrow> int \<Rightarrow> int \<Rightarrow> int" where
  "force_DIM NX NY DIM = (if NX = 1 then 2 else if NY = 1 then 1 else DIM)"

text \<open>Lines 152--169: the variables of the plan, by DIM.\<close>

record plan_variables =
  n0 :: int
  howmany :: int
  idist :: int
  odist :: int
  istride :: int
  ostride :: int

definition define_plan_variables :: "int \<Rightarrow> int \<Rightarrow> int \<Rightarrow> mex_error + plan_variables" where
  "define_plan_variables DIM NX NY =
     (if DIM = 1 then
        Inr \<lparr>n0 = NX, howmany = NY, idist = NX, odist = NX, istride = 1, ostride = 1\<rparr>
      else if DIM = 2 then
        Inr \<lparr>n0 = NY, howmany = NX, idist = 1, odist = 1, istride = NX, ostride = NX\<rparr>
      else Inl (mexErrMsgTxt ''Input for DIM must be 1 or 2.''))"

text \<open>The two steps together: the geometry resolved from the extents and the requested DIM.\<close>

definition resolve :: "int \<Rightarrow> int \<Rightarrow> int \<Rightarrow> mex_error + plan_variables" where
  "resolve NX NY DIM = define_plan_variables (force_DIM NX NY DIM) NX NY"

text \<open>Lines 178--188: the DTT type as a kind.\<close>

definition set_DTT_type :: "int \<Rightarrow> mex_error + fftw_r2r_kind" where
  "set_DTT_type DTT_type =
     (if DTT_type = 1 then Inr FFTW_REDFT00
      else if DTT_type = 2 then Inr FFTW_REDFT10
      else if DTT_type = 3 then Inr FFTW_REDFT01
      else if DTT_type = 4 then Inr FFTW_REDFT11
      else if DTT_type = 5 then Inr FFTW_RODFT00
      else if DTT_type = 6 then Inr FFTW_RODFT10
      else if DTT_type = 7 then Inr FFTW_RODFT01
      else if DTT_type = 8 then Inr FFTW_RODFT11
      else Inl (mexErrMsgTxt ''Input for DTT_TYPE must be an integer between 1 and 8.''))"

text \<open>Lines 128--215: from the forced DIM to the return, with the calls made on the way.\<close>

definition plan_and_execute_1D :: "real list \<Rightarrow> nat list \<Rightarrow> int \<Rightarrow> int \<Rightarrow> int \<Rightarrow> int \<Rightarrow> run" where
  "plan_and_execute_1D input_ptr dims NX NY DIM0 DTT_type =
     (let DIM = force_DIM NX NY DIM0;
          rank = 1
      in case define_plan_variables DIM NX NY of
           Inl e \<Rightarrow> ([mxCreateNumericArray dims], Inl e)
         | Inr pv \<Rightarrow>
             (case set_DTT_type DTT_type of
                Inl e \<Rightarrow> ([mxCreateNumericArray dims, fftw_malloc], Inl e)
              | Inr fKind \<Rightarrow>
                  ([mxCreateNumericArray dims, fftw_malloc,
                    fftw_plan_many_r2r rank (n0 pv) (howmany pv) input_ptr
                      (istride pv) (idist pv) (ostride pv) (odist pv) fKind,
                    fftw_execute, fftw_destroy_plan, fftw_free], Inr ())))"

text \<open>The entry point: \<open>nlhs\<close> and the argument vector \<open>prhs\<close> (\<open>nrhs\<close> is its length).\<close>

definition dtt1D :: "int \<Rightarrow> mxArray list \<Rightarrow> run" where
  "dtt1D nlhs prhs =
     (case check_inputs_outputs_1D nlhs (int (length prhs)) of
        Inl e \<Rightarrow> ([], Inl e)
      | Inr _ \<Rightarrow>
          (case get_DTT_type_1D (prhs ! 1) of
             Inl e \<Rightarrow> ([], Inl e)
           | Inr DTT_type \<Rightarrow>
               (case get_DIM prhs of
                  Inl e \<Rightarrow> ([], Inl e)
                | Inr DIM \<Rightarrow>
                    (case get_input_1D (prhs ! 0) of
                       Inl e \<Rightarrow> ([], Inl e)
                     | Inr (dims, NX, NY) \<Rightarrow>
                         plan_and_execute_1D (mxGetPr (prhs ! 0)) dims NX NY DIM DTT_type))))"

section \<open>dtt2D.cpp\<close>

text \<open>Lines 49--53: number of inputs and outputs.\<close>

definition check_inputs_outputs_2D :: "int \<Rightarrow> int \<Rightarrow> mex_error + unit" where
  "check_inputs_outputs_2D nlhs nrhs =
     (if nrhs \<noteq> 2 then Inl (mexErrMsgTxt ''Two inputs are required.'')
      else if nlhs \<noteq> 1 then Inl (mexErrMsgTxt ''One output is required.'')
      else Inr ())"

text \<open>Lines 73--83: a scalar type, assigned to both directions; yields \<open>(DTT_type_x, DTT_type_y)\<close>.\<close>

definition assign_scalar :: "int \<Rightarrow> mex_error + (fftw_r2r_kind \<times> fftw_r2r_kind)" where
  "assign_scalar c =
     (if c = 1 then Inr (FFTW_REDFT00, FFTW_REDFT00)
      else if c = 2 then Inr (FFTW_REDFT10, FFTW_REDFT10)
      else if c = 3 then Inr (FFTW_REDFT01, FFTW_REDFT01)
      else if c = 4 then Inr (FFTW_REDFT11, FFTW_REDFT11)
      else if c = 5 then Inr (FFTW_RODFT00, FFTW_RODFT00)
      else if c = 6 then Inr (FFTW_RODFT10, FFTW_RODFT10)
      else if c = 7 then Inr (FFTW_RODFT01, FFTW_RODFT01)
      else if c = 8 then Inr (FFTW_RODFT11, FFTW_RODFT11)
      else Inl (mexErrMsgTxt ''Input for DTT_TYPE must be an integer between 1 and 8.''))"

text \<open>Lines 89--99: the x-direction of a two-element type.\<close>

definition assign_x :: "int \<Rightarrow> mex_error + fftw_r2r_kind" where
  "assign_x c =
     (if c = 1 then Inr FFTW_REDFT00
      else if c = 2 then Inr FFTW_REDFT10
      else if c = 3 then Inr FFTW_REDFT01
      else if c = 4 then Inr FFTW_REDFT11
      else if c = 5 then Inr FFTW_RODFT00
      else if c = 6 then Inr FFTW_RODFT10
      else if c = 7 then Inr FFTW_RODFT01
      else if c = 8 then Inr FFTW_RODFT11
      else Inl (mexErrMsgTxt ''Input for DTT_TYPE must be an integer between 1 and 8.''))"

text \<open>Lines 102--112: the y-direction of a two-element type.\<close>

definition assign_y :: "int \<Rightarrow> mex_error + fftw_r2r_kind" where
  "assign_y c =
     (if c = 1 then Inr FFTW_REDFT00
      else if c = 2 then Inr FFTW_REDFT10
      else if c = 3 then Inr FFTW_REDFT01
      else if c = 4 then Inr FFTW_REDFT11
      else if c = 5 then Inr FFTW_RODFT00
      else if c = 6 then Inr FFTW_RODFT10
      else if c = 7 then Inr FFTW_RODFT01
      else if c = 8 then Inr FFTW_RODFT11
      else Inl (mexErrMsgTxt ''Input for DTT_TYPE must be an integer between 1 and 8.''))"

text \<open>Reading \<^verbatim>\<open>(int) dtt_type_pointer[i]\<close>.\<close>

definition read_code :: "real list \<Rightarrow> nat \<Rightarrow> mex_error + int" where
  "read_code p i = (case read_double p i of Inl e \<Rightarrow> Inl e | Inr v \<Rightarrow> int_of_double v)"

text \<open>Lines 60--117: the DTT type input; yields \<open>(DTT_type_x, DTT_type_y)\<close>.\<close>

definition get_DTT_type_2D :: "mxArray \<Rightarrow> mex_error + (fftw_r2r_kind \<times> fftw_r2r_kind)" where
  "get_DTT_type_2D p1 =
     (if \<not> (mxIsDouble p1 \<and> \<not> mxIsComplex p1)
      then Inl (mexErrMsgTxt ''Input for DTT_TYPE must be real, and double precision.'')
      else let dtt_type_pointer = mxGetPr p1;
               check_el_num = mxGetNumberOfElements p1
           in if check_el_num = 1 then
                (case read_code dtt_type_pointer 0 of
                   Inl e \<Rightarrow> Inl e
                 | Inr c \<Rightarrow> assign_scalar c)
              else if check_el_num = 2 then
                (case read_code dtt_type_pointer 0 of
                   Inl e \<Rightarrow> Inl e
                 | Inr c0 \<Rightarrow>
                     (case assign_x c0 of
                        Inl e \<Rightarrow> Inl e
                      | Inr DTT_type_x \<Rightarrow>
                          (case read_code dtt_type_pointer 1 of
                             Inl e \<Rightarrow> Inl e
                           | Inr c1 \<Rightarrow>
                               (case assign_y c1 of
                                  Inl e \<Rightarrow> Inl e
                                | Inr DTT_type_y \<Rightarrow> Inr (DTT_type_x, DTT_type_y)))))
              else Inl (mexErrMsgTxt ''Input for DTT_TYPE must be scalar or length 2.''))"

text \<open>Lines 124--138: the input array; yields \<open>(dims, NX, NY)\<close>.\<close>

definition get_input_2D :: "mxArray \<Rightarrow> mex_error + (nat list \<times> int \<times> int)" where
  "get_input_2D p0 =
     (if \<not> (mxIsDouble p0 \<and> \<not> mxIsComplex p0)
      then Inl (mexErrMsgTxt ''Input array must be double precision and real.'')
      else let numdims = mxGetNumberOfDimensions p0
           in if numdims \<noteq> 2 then Inl (mexErrMsgTxt ''Input array must be 2D.'')
              else let dims = mxGetDimensions p0
                   in case read_dim dims 0 of
                        Inl e \<Rightarrow> Inl e
                      | Inr d0 \<Rightarrow>
                          (case read_dim dims 1 of
                             Inl e \<Rightarrow> Inl e
                           | Inr d1 \<Rightarrow> Inr (dims, int_of_mwSize d0, int_of_mwSize d1)))"

text \<open>Lines 141--167: the output array and the fused plan, extents and kinds in (y, x) order.\<close>

definition plan_and_execute_2D ::
  "real list \<Rightarrow> nat list \<Rightarrow> int \<Rightarrow> int \<Rightarrow> fftw_r2r_kind \<Rightarrow> fftw_r2r_kind \<Rightarrow> run" where
  "plan_and_execute_2D input_ptr dims NX NY DTT_type_x DTT_type_y =
     ([mxCreateNumericArray dims,
       fftw_plan_r2r_2d NY NX input_ptr DTT_type_y DTT_type_x,
       fftw_execute, fftw_destroy_plan], Inr ())"

definition dtt2D :: "int \<Rightarrow> mxArray list \<Rightarrow> run" where
  "dtt2D nlhs prhs =
     (case check_inputs_outputs_2D nlhs (int (length prhs)) of
        Inl e \<Rightarrow> ([], Inl e)
      | Inr _ \<Rightarrow>
          (case get_DTT_type_2D (prhs ! 1) of
             Inl e \<Rightarrow> ([], Inl e)
           | Inr (DTT_type_x, DTT_type_y) \<Rightarrow>
               (case get_input_2D (prhs ! 0) of
                  Inl e \<Rightarrow> ([], Inl e)
                | Inr (dims, NX, NY) \<Rightarrow>
                    plan_and_execute_2D (mxGetPr (prhs ! 0)) dims NX NY DTT_type_x DTT_type_y)))"

section \<open>Names of the errors\<close>

text \<open>The message that reports a type code outside 1..8, in both entry points.\<close>

abbreviation InvalidTypeCode :: mex_error where
  "InvalidTypeCode \<equiv> mexErrMsgTxt ''Input for DTT_TYPE must be an integer between 1 and 8.''"

text \<open>The message that reports a type argument of neither one nor two elements (2D).\<close>

abbreviation DTT_TYPE_length_error :: mex_error where
  "DTT_TYPE_length_error \<equiv> mexErrMsgTxt ''Input for DTT_TYPE must be scalar or length 2.''"

text \<open>The message of the type test of the DIM argument (1D).\<close>

abbreviation DIM_type_error :: mex_error where
  "DIM_type_error \<equiv> mexErrMsgTxt ''Input for DIM must be real, scalar, and double precision.''"

section \<open>Integral parts\<close>

text \<open>
  An argument with every value replaced by its integral part: the integer codes that a
  caller passing fractional values could have passed instead.
\<close>

definition with_truncated_codes :: "mxArray \<Rightarrow> mxArray" where
  "with_truncated_codes p = p\<lparr>mxGetPr := map (\<lambda>v. real_of_int (c_trunc v)) (mxGetPr p)\<rparr>"

section \<open>Properties\<close>

subsection \<open>Conversions and the mapping table\<close>

lemma c_trunc_of_int: "c_trunc (of_int k) = k"
  by (simp add: c_trunc_def)

lemma int_of_double_of_int_trunc: "int_of_double (of_int (c_trunc v)) = int_of_double v"
  by (simp add: int_of_double_def c_trunc_of_int)

lemma kinds_UNIV: "(UNIV :: fftw_r2r_kind set) =
  {FFTW_REDFT00, FFTW_REDFT10, FFTW_REDFT01, FFTW_REDFT11,
   FFTW_RODFT00, FFTW_RODFT10, FFTW_RODFT01, FFTW_RODFT11}"
  by (auto intro: fftw_r2r_kind.exhaust)

lemma codes_1_8: "{1..8::int} = {1, 2, 3, 4, 5, 6, 7, 8}"
  by auto

lemma set_DTT_type_image: "set_DTT_type ` {1..8} = range Inr"
  unfolding codes_1_8 kinds_UNIV by (auto simp: set_DTT_type_def)

lemma set_DTT_type_inj: "inj_on set_DTT_type {1..8}"
  unfolding codes_1_8 by (simp add: set_DTT_type_def)

lemma set_DTT_type_outside:
  "c < 1 \<or> 8 < c \<Longrightarrow> set_DTT_type c = Inl InvalidTypeCode"
  by (auto simp: set_DTT_type_def)

lemma set_DTT_type_inside:
  assumes "1 \<le> c" "c \<le> 8"
  shows "\<exists>k. set_DTT_type c = Inr k"
proof -
  from assms have "c \<in> {1..8}" by simp
  then have "set_DTT_type c \<in> range Inr"
    using set_DTT_type_image by blast
  then show ?thesis by auto
qed

lemma set_DTT_type_Inr_iff: "(\<exists>k. set_DTT_type c = Inr k) \<longleftrightarrow> 1 \<le> c \<and> c \<le> 8"
proof
  assume "\<exists>k. set_DTT_type c = Inr k"
  then show "1 \<le> c \<and> c \<le> 8"
    using set_DTT_type_outside [of c] by fastforce
qed (simp add: set_DTT_type_inside)

lemma assign_x_eq: "assign_x c = set_DTT_type c"
  by (simp add: assign_x_def set_DTT_type_def)

lemma assign_y_eq: "assign_y c = set_DTT_type c"
  by (simp add: assign_y_def set_DTT_type_def)

lemma assign_scalar_eq: "assign_scalar c = map_sum id (\<lambda>k. (k, k)) (set_DTT_type c)"
  by (simp add: assign_scalar_def set_DTT_type_def)

subsection \<open>The geometry of the DIM switch\<close>

text \<open>
  C1. For extents \<open>NX > 1\<close> and \<open>NY > 1\<close> the DIM switch yields the column-major geometry:
  for DIM 1 (columns) length \<open>NX\<close>, batch \<open>NY\<close>, stride 1, distance \<open>NX\<close>; for DIM 2 (rows)
  length \<open>NY\<close>, batch \<open>NX\<close>, stride \<open>NX\<close>, distance 1; input and output strides and distances
  are the same. Such extents are not forced to another DIM, and the planning call receives
  the values in the argument order \<open>rank, n, howmany, in, istride, idist, ostride, odist, kind\<close>.
\<close>

theorem column_major_geometry:
  assumes "1 < NX" and "1 < NY"
  shows "define_plan_variables 1 NX NY =
           Inr \<lparr>n0 = NX, howmany = NY, idist = NX, odist = NX, istride = 1, ostride = 1\<rparr>
       \<and> define_plan_variables 2 NX NY =
           Inr \<lparr>n0 = NY, howmany = NX, idist = 1, odist = 1, istride = NX, ostride = NX\<rparr>
       \<and> resolve NX NY 1 = define_plan_variables 1 NX NY
       \<and> resolve NX NY 2 = define_plan_variables 2 NX NY
       \<and> (set_DTT_type c = Inr k \<longrightarrow>
            plan_and_execute_1D inp dims NX NY 1 c =
              ([mxCreateNumericArray dims, fftw_malloc,
                fftw_plan_many_r2r 1 NX NY inp 1 NX 1 NX k,
                fftw_execute, fftw_destroy_plan, fftw_free], Inr ())
          \<and> plan_and_execute_1D inp dims NX NY 2 c =
              ([mxCreateNumericArray dims, fftw_malloc,
                fftw_plan_many_r2r 1 NY NX inp NX 1 NX 1 k,
                fftw_execute, fftw_destroy_plan, fftw_free], Inr ()))"
proof -
  from assms have f: "force_DIM NX NY 1 = 1" "force_DIM NX NY 2 = 2"
    by (simp_all add: force_DIM_def)
  have d1: "define_plan_variables 1 NX NY =
      Inr \<lparr>n0 = NX, howmany = NY, idist = NX, odist = NX, istride = 1, ostride = 1\<rparr>"
    by (simp add: define_plan_variables_def)
  have d2: "define_plan_variables 2 NX NY =
      Inr \<lparr>n0 = NY, howmany = NX, idist = 1, odist = 1, istride = NX, ostride = NX\<rparr>"
    by (simp add: define_plan_variables_def)
  show ?thesis
    by (simp add: d1 d2 f resolve_def plan_and_execute_1D_def)
qed

text \<open>A 4 by 3 array, transformed along its rows with type 2.\<close>

theorem column_major_geometry_witness:
  "(1::int) < 4 \<and> (1::int) < 3
   \<and> resolve 4 3 1 = Inr \<lparr>n0 = 4, howmany = 3, idist = 4, odist = 4, istride = 1, ostride = 1\<rparr>
   \<and> resolve 4 3 2 = Inr \<lparr>n0 = 3, howmany = 4, idist = 1, odist = 1, istride = 4, ostride = 4\<rparr>
   \<and> set_DTT_type 2 = Inr FFTW_REDFT10
   \<and> plan_and_execute_1D [] [4, 3] 4 3 2 2 =
        ([mxCreateNumericArray [4, 3], fftw_malloc,
          fftw_plan_many_r2r 1 3 4 [] 4 1 4 1 FFTW_REDFT10,
          fftw_execute, fftw_destroy_plan, fftw_free], Inr ())"
proof -
  have k: "set_DTT_type 2 = Inr FFTW_REDFT10"
    by (simp add: set_DTT_type_def)
  show ?thesis
    using column_major_geometry [of 4 3 2 FFTW_REDFT10 "[]" "[4, 3]"] k by simp
qed

subsection \<open>The forced DIM\<close>

text \<open>
  C4 as stated asks for DIM 1 (columns) whenever \<open>NY = 1\<close>. For a 1 by 1 array both tests
  hold; the source tests \<open>NX = 1\<close> first and takes the \<^verbatim>\<open>else if\<close> only when that fails, so
  the DIM used is 2.
\<close>

theorem force_DIM_single_element_counterexample: "force_DIM 1 1 1 = 2 \<and> force_DIM 1 1 1 \<noteq> 1"
  by (simp add: force_DIM_def)

text \<open>
  C4, amended. If \<open>NX = 1\<close> the DIM used is 2 (rows); if \<open>NY = 1\<close> and \<open>NX \<noteq> 1\<close> it is 1
  (columns); both override the requested DIM. For \<open>NX > 1\<close> and \<open>NY > 1\<close> the requested DIM
  is used unchanged. The switch runs on the DIM so obtained.
\<close>

theorem force_DIM_priority:
  "(NX = 1 \<longrightarrow> force_DIM NX NY DIM = 2)
   \<and> (NX \<noteq> 1 \<and> NY = 1 \<longrightarrow> force_DIM NX NY DIM = 1)
   \<and> (1 < NX \<and> 1 < NY \<longrightarrow> force_DIM NX NY DIM = DIM)
   \<and> resolve NX NY DIM = define_plan_variables (force_DIM NX NY DIM) NX NY"
  by (simp add: force_DIM_def resolve_def)

theorem force_DIM_priority_witness:
  "force_DIM 1 5 1 = 2 \<and> force_DIM 5 1 2 = 1 \<and> force_DIM 4 3 2 = 2 \<and> force_DIM 4 3 1 = 1"
  using force_DIM_priority [of 1 5 1] force_DIM_priority [of 5 1 2] force_DIM_priority [of 4 3 2] force_DIM_priority [of 4 3 1]
  by simp

subsection \<open>The geometry stays inside the buffer\<close>

text \<open>
  C5. For \<open>NX, NY \<ge> 2\<close> and DIM 1 or 2 the resolved geometry satisfies
  \<open>stride * (length - 1) + distance * (batch - 1) + 1 \<le> NX * NY\<close> and
  \<open>length * batch = NX * NY\<close>, for the input and for the output values. Hence element \<open>i\<close>
  of batch instance \<open>b\<close> lies at an offset from 0 up to, and not including, \<open>NX * NY\<close>.
\<close>

theorem geometry_within_buffer:
  assumes "2 \<le> NX" and "2 \<le> NY" and "DIM = 1 \<or> DIM = 2"
  shows "\<exists>pv. resolve NX NY DIM = Inr pv
          \<and> istride pv * (n0 pv - 1) + idist pv * (howmany pv - 1) + 1 \<le> NX * NY
          \<and> ostride pv * (n0 pv - 1) + odist pv * (howmany pv - 1) + 1 \<le> NX * NY
          \<and> n0 pv * howmany pv = NX * NY
          \<and> (\<forall>i b. 0 \<le> i \<and> i < n0 pv \<and> 0 \<le> b \<and> b < howmany pv \<longrightarrow>
                0 \<le> istride pv * i + idist pv * b \<and> istride pv * i + idist pv * b < NX * NY
              \<and> 0 \<le> ostride pv * i + odist pv * b \<and> ostride pv * i + odist pv * b < NX * NY)"
proof -
  from assms have f: "force_DIM NX NY DIM = DIM"
    by (simp add: force_DIM_def)
  have bound: "x + NX * y < NX * NY" if "0 \<le> x" "x < NX" "0 \<le> y" "y < NY" for x y :: int
  proof -
    from that have "y + 1 \<le> NY" by simp
    with assms(1) have "NX * (y + 1) \<le> NX * NY"
      by (intro mult_left_mono) simp_all
    with that show ?thesis by (simp add: algebra_simps)
  qed
  from assms(3) show ?thesis
  proof
    assume "DIM = 1"
    then have r: "resolve NX NY DIM =
        Inr \<lparr>n0 = NX, howmany = NY, idist = NX, odist = NX, istride = 1, ostride = 1\<rparr>"
      using f by (simp add: resolve_def define_plan_variables_def)
    show ?thesis
      unfolding r using assms(1,2) bound by (simp add: algebra_simps)
  next
    assume "DIM = 2"
    then have r: "resolve NX NY DIM =
        Inr \<lparr>n0 = NY, howmany = NX, idist = 1, odist = 1, istride = NX, ostride = NX\<rparr>"
      using f by (simp add: resolve_def define_plan_variables_def)
    have bound': "NX * y + x < NX * NY" if "0 \<le> x" "x < NX" "0 \<le> y" "y < NY" for x y :: int
      using bound [OF that] by (simp add: add.commute)
    show ?thesis
      unfolding r using assms(1,2) bound' by (simp add: algebra_simps)
  qed
qed

theorem geometry_within_buffer_witness:
  "(2::int) \<le> 2 \<and> (2::int) \<le> 3
   \<and> (\<exists>pv. resolve 2 3 2 = Inr pv
          \<and> istride pv * (n0 pv - 1) + idist pv * (howmany pv - 1) + 1 \<le> 2 * 3
          \<and> n0 pv * howmany pv = 2 * 3
          \<and> istride pv * 2 + idist pv * 1 < 2 * 3)"
proof -
  obtain pv where pv: "resolve 2 3 2 = Inr pv"
      "istride pv * (n0 pv - 1) + idist pv * (howmany pv - 1) + 1 \<le> 2 * 3"
      "n0 pv * howmany pv = 2 * 3"
    and all: "\<forall>i b. 0 \<le> i \<and> i < n0 pv \<and> 0 \<le> b \<and> b < howmany pv \<longrightarrow>
                0 \<le> istride pv * i + idist pv * b \<and> istride pv * i + idist pv * b < 2 * 3
              \<and> 0 \<le> ostride pv * i + odist pv * b \<and> ostride pv * i + odist pv * b < 2 * 3"
    using geometry_within_buffer [of 2 3 2] by auto
  from pv(1) have "n0 pv = 3" "howmany pv = 2"
    by (auto simp: resolve_def force_DIM_def define_plan_variables_def)
  with all [rule_format, of 2 1] have "istride pv * 2 + idist pv * 1 < 2 * 3"
    by simp
  with pv show ?thesis by auto
qed

subsection \<open>Single rows and single columns\<close>

text \<open>
  C6 as stated gives distance 5 for \<open>NX = 1\<close>, \<open>NY = 5\<close> and distance 1 for \<open>NX = 5\<close>,
  \<open>NY = 1\<close>. The rows branch of the switch sets the distance to 1 and the stride to \<open>NX\<close>,
  here 1; the columns branch sets the distance to \<open>NX\<close>, here 5.
\<close>

theorem degenerate_distance_counterexample:
  "resolve 1 5 1 = Inr \<lparr>n0 = 5, howmany = 1, idist = 1, odist = 1, istride = 1, ostride = 1\<rparr>
   \<and> resolve 1 5 1 \<noteq> Inr \<lparr>n0 = 5, howmany = 1, idist = 5, odist = 5, istride = 1, ostride = 1\<rparr>
   \<and> resolve 5 1 1 = Inr \<lparr>n0 = 5, howmany = 1, idist = 5, odist = 5, istride = 1, ostride = 1\<rparr>
   \<and> resolve 5 1 1 \<noteq> Inr \<lparr>n0 = 5, howmany = 1, idist = 1, odist = 1, istride = 1, ostride = 1\<rparr>"
  by (simp add: resolve_def force_DIM_def define_plan_variables_def)

text \<open>
  C6, amended. For \<open>NX = 1\<close>, \<open>NY = 5\<close> and any requested DIM the DIM is forced to 2 (rows)
  and the geometry is length 5, batch 1, stride 1, distance 1. For \<open>NX = 5\<close>, \<open>NY = 1\<close> the
  DIM is forced to 1 (columns) and the geometry is length 5, batch 1, stride 1, distance 5.
\<close>

theorem degenerate_geometry:
  "force_DIM 1 5 DIM = 2
   \<and> resolve 1 5 DIM = Inr \<lparr>n0 = 5, howmany = 1, idist = 1, odist = 1, istride = 1, ostride = 1\<rparr>
   \<and> force_DIM 5 1 DIM = 1
   \<and> resolve 5 1 DIM = Inr \<lparr>n0 = 5, howmany = 1, idist = 5, odist = 5, istride = 1, ostride = 1\<rparr>"
  by (simp add: resolve_def force_DIM_def define_plan_variables_def)

subsection \<open>One mapping in four switches\<close>

text \<open>
  C7. The switch of the 1D entry point, the scalar switch of the 2D entry point and the
  two switches of its two-element path compute the same mapping: they agree on every
  \<^verbatim>\<open>int\<close>, and for every code from 1 to 8 all of them return the same kind (the scalar switch
  returns it for both directions).
\<close>

theorem mapping_tables_agree:
  "assign_x c = set_DTT_type c
   \<and> assign_y c = set_DTT_type c
   \<and> assign_scalar c = map_sum id (\<lambda>k. (k, k)) (set_DTT_type c)
   \<and> (1 \<le> c \<and> c \<le> 8 \<longrightarrow>
        (\<exists>k. set_DTT_type c = Inr k \<and> assign_x c = Inr k \<and> assign_y c = Inr k
              \<and> assign_scalar c = Inr (k, k)))"
proof -
  have "\<exists>k. set_DTT_type c = Inr k \<and> assign_x c = Inr k \<and> assign_y c = Inr k
              \<and> assign_scalar c = Inr (k, k)" if "1 \<le> c" "c \<le> 8"
  proof -
    from that obtain k where "set_DTT_type c = Inr k"
      using set_DTT_type_inside by blast
    then show ?thesis
      by (simp add: assign_x_eq assign_y_eq assign_scalar_eq)
  qed
  then show ?thesis
    by (simp add: assign_x_eq assign_y_eq assign_scalar_eq)
qed

theorem mapping_tables_agree_witness:
  "(1::int) \<le> 6 \<and> (6::int) \<le> 8
   \<and> set_DTT_type 6 = Inr FFTW_RODFT10 \<and> assign_x 6 = Inr FFTW_RODFT10
   \<and> assign_y 6 = Inr FFTW_RODFT10 \<and> assign_scalar 6 = Inr (FFTW_RODFT10, FFTW_RODFT10)"
proof -
  have "set_DTT_type 6 = Inr FFTW_RODFT10"
    by (simp add: set_DTT_type_def)
  then show ?thesis
    using mapping_tables_agree [of 6] by auto
qed

lemma get_DTT_type_1D_outside:
  assumes "mxIsDouble p1" "\<not> mxIsComplex p1" "mxGetNumberOfElements p1 = 1"
    and "read_code (mxGetPr p1) 0 = Inr c" and "c < 1 \<or> 8 < c"
  shows "get_DTT_type_1D p1 = Inl InvalidTypeCode"
  using assms
  by (auto simp: get_DTT_type_1D_def read_code_def split: sum.splits)

lemma get_DTT_type_2D_scalar_outside:
  assumes "mxIsDouble p1" "\<not> mxIsComplex p1" "mxGetNumberOfElements p1 = 1"
    and "read_code (mxGetPr p1) 0 = Inr c" and "c < 1 \<or> 8 < c"
  shows "get_DTT_type_2D p1 = Inl InvalidTypeCode"
  using assms
  by (simp add: get_DTT_type_2D_def assign_scalar_eq set_DTT_type_outside)

lemma get_DTT_type_2D_x_outside:
  assumes "mxIsDouble p1" "\<not> mxIsComplex p1" "mxGetNumberOfElements p1 = 2"
    and "read_code (mxGetPr p1) 0 = Inr c" and "c < 1 \<or> 8 < c"
  shows "get_DTT_type_2D p1 = Inl InvalidTypeCode"
  using assms
  by (simp add: get_DTT_type_2D_def assign_x_eq set_DTT_type_outside)

lemma get_DTT_type_2D_y_outside:
  assumes "mxIsDouble p1" "\<not> mxIsComplex p1" "mxGetNumberOfElements p1 = 2"
    and "read_code (mxGetPr p1) 0 = Inr c0" and "1 \<le> c0" "c0 \<le> 8"
    and "read_code (mxGetPr p1) 1 = Inr c" and "c < 1 \<or> 8 < c"
  shows "get_DTT_type_2D p1 = Inl InvalidTypeCode"
proof -
  obtain k where "set_DTT_type c0 = Inr k"
    using set_DTT_type_inside assms(5,6) by blast
  with assms show ?thesis
    by (simp add: get_DTT_type_2D_def assign_x_eq assign_y_eq set_DTT_type_outside)
qed

lemma dtt1D_type_error:
  assumes "check_inputs_outputs_1D nlhs (int (length prhs)) = Inr ()"
    and "get_DTT_type_1D (prhs ! 1) = Inl e"
  shows "dtt1D nlhs prhs = ([], Inl e)"
  using assms by (simp add: dtt1D_def)

lemma dtt2D_type_error:
  assumes "check_inputs_outputs_2D nlhs (int (length prhs)) = Inr ()"
    and "get_DTT_type_2D (prhs ! 1) = Inl e"
  shows "dtt2D nlhs prhs = ([], Inl e)"
  using assms by (simp add: dtt2D_def)

subsection \<open>The mapping from type codes to kinds\<close>

text \<open>
  C2. Codes 1 to 8 are mapped to the kinds \<open>REDFT00, REDFT10, REDFT01, REDFT11, RODFT00,
  RODFT10, RODFT01, RODFT11\<close> in this order, by the switch of the 1D entry point and by the
  scalar switch of the 2D entry point. On 1..8 the mapping is injective and reaches every
  kind. Every other code, 0 and 9 among them, ends in the message for an invalid type
  code; a call that reads such a code (as the scalar type of either entry point, or as
  one of the two elements of the 2D type) makes none of the backend calls and creates no
  output.
\<close>

theorem type_mapper_bijection:
  "set_DTT_type 1 = Inr FFTW_REDFT00 \<and> set_DTT_type 2 = Inr FFTW_REDFT10
   \<and> set_DTT_type 3 = Inr FFTW_REDFT01 \<and> set_DTT_type 4 = Inr FFTW_REDFT11
   \<and> set_DTT_type 5 = Inr FFTW_RODFT00 \<and> set_DTT_type 6 = Inr FFTW_RODFT10
   \<and> set_DTT_type 7 = Inr FFTW_RODFT01 \<and> set_DTT_type 8 = Inr FFTW_RODFT11
   \<and> assign_scalar 1 = Inr (FFTW_REDFT00, FFTW_REDFT00)
   \<and> assign_scalar 2 = Inr (FFTW_REDFT10, FFTW_REDFT10)
   \<and> assign_scalar 3 = Inr (FFTW_REDFT01, FFTW_REDFT01)
   \<and> assign_scalar 4 = Inr (FFTW_REDFT11, FFTW_REDFT11)
   \<and> assign_scalar 5 = Inr (FFTW_RODFT00, FFTW_RODFT00)
   \<and> assign_scalar 6 = Inr (FFTW_RODFT10, FFTW_RODFT10)
   \<and> assign_scalar 7 = Inr (FFTW_RODFT01, FFTW_RODFT01)
   \<and> assign_scalar 8 = Inr (FFTW_RODFT11, FFTW_RODFT11)
   \<and> inj_on set_DTT_type {1..8} \<and> set_DTT_type ` {1..8} = range Inr
   \<and> inj_on assign_scalar {1..8} \<and> assign_scalar ` {1..8} = range (\<lambda>k. Inr (k, k))
   \<and> (c < 1 \<or> 8 < c \<longrightarrow>
        set_DTT_type c = Inl InvalidTypeCode \<and> assign_scalar c = Inl InvalidTypeCode)
   \<and> (check_inputs_outputs_1D nlhs (int (length prhs)) = Inr ()
        \<and> mxIsDouble (prhs ! 1) \<and> \<not> mxIsComplex (prhs ! 1)
        \<and> mxGetNumberOfElements (prhs ! 1) = 1
        \<and> read_code (mxGetPr (prhs ! 1)) 0 = Inr c \<and> (c < 1 \<or> 8 < c) \<longrightarrow>
        dtt1D nlhs prhs = ([], Inl InvalidTypeCode))
   \<and> (check_inputs_outputs_2D nlhs (int (length prhs)) = Inr ()
        \<and> mxIsDouble (prhs ! 1) \<and> \<not> mxIsComplex (prhs ! 1)
        \<and> mxGetNumberOfElements (prhs ! 1) = 1
        \<and> read_code (mxGetPr (prhs ! 1)) 0 = Inr c \<and> (c < 1 \<or> 8 < c) \<longrightarrow>
        dtt2D nlhs prhs = ([], Inl InvalidTypeCode))
   \<and> (check_inputs_outputs_2D nlhs (int (length prhs)) = Inr ()
        \<and> mxIsDouble (prhs ! 1) \<and> \<not> mxIsComplex (prhs ! 1)
        \<and> mxGetNumberOfElements (prhs ! 1) = 2
        \<and> read_code (mxGetPr (prhs ! 1)) 0 = Inr c \<and> (c < 1 \<or> 8 < c) \<longrightarrow>
        dtt2D nlhs prhs = ([], Inl InvalidTypeCode))
   \<and> (check_inputs_outputs_2D nlhs (int (length prhs)) = Inr ()
        \<and> mxIsDouble (prhs ! 1) \<and> \<not> mxIsComplex (prhs ! 1)
        \<and> mxGetNumberOfElements (prhs ! 1) = 2
        \<and> read_code (mxGetPr (prhs ! 1)) 0 = Inr c0 \<and> 1 \<le> c0 \<and> c0 \<le> 8
        \<and> read_code (mxGetPr (prhs ! 1)) 1 = Inr c \<and> (c < 1 \<or> 8 < c) \<longrightarrow>
        dtt2D nlhs prhs = ([], Inl InvalidTypeCode))"
proof -
  have table1: "set_DTT_type 1 = Inr FFTW_REDFT00 \<and> set_DTT_type 2 = Inr FFTW_REDFT10
   \<and> set_DTT_type 3 = Inr FFTW_REDFT01 \<and> set_DTT_type 4 = Inr FFTW_REDFT11
   \<and> set_DTT_type 5 = Inr FFTW_RODFT00 \<and> set_DTT_type 6 = Inr FFTW_RODFT10
   \<and> set_DTT_type 7 = Inr FFTW_RODFT01 \<and> set_DTT_type 8 = Inr FFTW_RODFT11"
    by (simp add: set_DTT_type_def)
  have table2: "assign_scalar 1 = Inr (FFTW_REDFT00, FFTW_REDFT00)
   \<and> assign_scalar 2 = Inr (FFTW_REDFT10, FFTW_REDFT10)
   \<and> assign_scalar 3 = Inr (FFTW_REDFT01, FFTW_REDFT01)
   \<and> assign_scalar 4 = Inr (FFTW_REDFT11, FFTW_REDFT11)
   \<and> assign_scalar 5 = Inr (FFTW_RODFT00, FFTW_RODFT00)
   \<and> assign_scalar 6 = Inr (FFTW_RODFT10, FFTW_RODFT10)
   \<and> assign_scalar 7 = Inr (FFTW_RODFT01, FFTW_RODFT01)
   \<and> assign_scalar 8 = Inr (FFTW_RODFT11, FFTW_RODFT11)"
    by (simp add: assign_scalar_def)
  have inj2: "inj_on assign_scalar {1..8}"
    unfolding codes_1_8 by (simp add: assign_scalar_def)
  have img2: "assign_scalar ` {1..8} = range (\<lambda>k. Inr (k, k))"
    unfolding codes_1_8 kinds_UNIV by (auto simp: assign_scalar_def)
  have out: "c < 1 \<or> 8 < c \<longrightarrow>
        set_DTT_type c = Inl InvalidTypeCode \<and> assign_scalar c = Inl InvalidTypeCode"
    by (simp add: assign_scalar_eq set_DTT_type_outside)
  have call1: "check_inputs_outputs_1D nlhs (int (length prhs)) = Inr ()
        \<and> mxIsDouble (prhs ! 1) \<and> \<not> mxIsComplex (prhs ! 1)
        \<and> mxGetNumberOfElements (prhs ! 1) = 1
        \<and> read_code (mxGetPr (prhs ! 1)) 0 = Inr c \<and> (c < 1 \<or> 8 < c) \<longrightarrow>
        dtt1D nlhs prhs = ([], Inl InvalidTypeCode)"
    using dtt1D_type_error get_DTT_type_1D_outside by blast
  have call2: "check_inputs_outputs_2D nlhs (int (length prhs)) = Inr ()
        \<and> mxIsDouble (prhs ! 1) \<and> \<not> mxIsComplex (prhs ! 1)
        \<and> mxGetNumberOfElements (prhs ! 1) = 1
        \<and> read_code (mxGetPr (prhs ! 1)) 0 = Inr c \<and> (c < 1 \<or> 8 < c) \<longrightarrow>
        dtt2D nlhs prhs = ([], Inl InvalidTypeCode)"
    using dtt2D_type_error get_DTT_type_2D_scalar_outside by blast
  have call3: "check_inputs_outputs_2D nlhs (int (length prhs)) = Inr ()
        \<and> mxIsDouble (prhs ! 1) \<and> \<not> mxIsComplex (prhs ! 1)
        \<and> mxGetNumberOfElements (prhs ! 1) = 2
        \<and> read_code (mxGetPr (prhs ! 1)) 0 = Inr c \<and> (c < 1 \<or> 8 < c) \<longrightarrow>
        dtt2D nlhs prhs = ([], Inl InvalidTypeCode)"
    using dtt2D_type_error get_DTT_type_2D_x_outside by blast
  have call4: "check_inputs_outputs_2D nlhs (int (length prhs)) = Inr ()
        \<and> mxIsDouble (prhs ! 1) \<and> \<not> mxIsComplex (prhs ! 1)
        \<and> mxGetNumberOfElements (prhs ! 1) = 2
        \<and> read_code (mxGetPr (prhs ! 1)) 0 = Inr c0 \<and> 1 \<le> c0 \<and> c0 \<le> 8
        \<and> read_code (mxGetPr (prhs ! 1)) 1 = Inr c \<and> (c < 1 \<or> 8 < c) \<longrightarrow>
        dtt2D nlhs prhs = ([], Inl InvalidTypeCode)"
    using dtt2D_type_error get_DTT_type_2D_y_outside by blast
  from table1 table2 set_DTT_type_inj set_DTT_type_image inj2 img2 out call1 call2 call3 call4
  show ?thesis by blast
qed

theorem type_mapper_bijection_witness:
  "set_DTT_type 0 = Inl InvalidTypeCode \<and> set_DTT_type 9 = Inl InvalidTypeCode
   \<and> assign_scalar 0 = Inl InvalidTypeCode \<and> assign_scalar 9 = Inl InvalidTypeCode
   \<and> dtt1D 1 [\<lparr>mxIsDouble = True, mxIsComplex = False, mxGetDimensions = [2, 2],
                 mxGetPr = [1, 1, 1, 1]\<rparr>,
               \<lparr>mxIsDouble = True, mxIsComplex = False, mxGetDimensions = [1, 1],
                 mxGetPr = [0]\<rparr>] = ([], Inl InvalidTypeCode)
   \<and> dtt2D 1 [\<lparr>mxIsDouble = True, mxIsComplex = False, mxGetDimensions = [2, 2],
                 mxGetPr = [1, 1, 1, 1]\<rparr>,
               \<lparr>mxIsDouble = True, mxIsComplex = False, mxGetDimensions = [1, 1],
                 mxGetPr = [9]\<rparr>] = ([], Inl InvalidTypeCode)"
proof -
  let ?a = "\<lparr>mxIsDouble = True, mxIsComplex = False, mxGetDimensions = [2, 2],
             mxGetPr = [1, 1, 1, 1]\<rparr>"
  let ?t0 = "\<lparr>mxIsDouble = True, mxIsComplex = False, mxGetDimensions = [1, 1],
              mxGetPr = [0]\<rparr>"
  let ?t9 = "\<lparr>mxIsDouble = True, mxIsComplex = False, mxGetDimensions = [1, 1],
              mxGetPr = [9]\<rparr>"
  have r0: "read_code [0] 0 = Inr 0" and r9: "read_code [9] 0 = Inr 9"
    by (simp_all add: read_code_def read_double_def int_of_double_def c_trunc_def)
  show ?thesis
    using type_mapper_bijection [of 0 1 "[?a, ?t0]"] type_mapper_bijection [of 9 1 "[?a, ?t9]"] r0 r9
    by (simp add: check_inputs_outputs_1D_def check_inputs_outputs_2D_def
        mxGetNumberOfElements_def)
qed

lemma get_DTT_type_2D_pair:
  assumes "mxIsDouble t" "\<not> mxIsComplex t" "mxGetNumberOfElements t = 2"
    and "mxGetPr t = [real_of_int cx, real_of_int cy]"
    and "assign_x cx = Inr kx" "assign_y cy = Inr ky"
  shows "get_DTT_type_2D t = Inr (kx, ky)"
proof -
  from assms(5) have "1 \<le> cx \<and> cx \<le> 8"
    using set_DTT_type_Inr_iff [of cx] by (auto simp: assign_x_eq)
  then have x: "read_code (mxGetPr t) 0 = Inr cx"
    by (simp add: assms(4) read_code_def read_double_def int_of_double_def c_trunc_of_int)
  from assms(6) have "1 \<le> cy \<and> cy \<le> 8"
    using set_DTT_type_Inr_iff [of cy] by (auto simp: assign_y_eq)
  then have y: "read_code (mxGetPr t) (Suc 0) = Inr cy"
    by (simp add: assms(4) read_code_def read_double_def int_of_double_def c_trunc_of_int)
  show ?thesis
    using assms(1,2,3,5,6) by (simp add: get_DTT_type_2D_def x y)
qed

lemma get_input_2D_ok:
  assumes "mxIsDouble a" "\<not> mxIsComplex a" "mxGetDimensions a = [dx, dy]"
  shows "get_input_2D a = Inr ([dx, dy], int_of_mwSize dx, int_of_mwSize dy)"
  using assms by (simp add: get_input_2D_def mxGetNumberOfDimensions_def read_dim_def)

lemma dtt2D_run:
  assumes "get_DTT_type_2D t = Inr (kx, ky)"
    and "get_input_2D a = Inr (dims, NX, NY)"
  shows "dtt2D 1 [a, t] =
           ([mxCreateNumericArray dims, fftw_plan_r2r_2d NY NX (mxGetPr a) ky kx,
             fftw_execute, fftw_destroy_plan], Inr ())"
  using assms by (simp add: dtt2D_def check_inputs_outputs_2D_def plan_and_execute_2D_def)

subsection \<open>The fused 2D plan\<close>

text \<open>
  C3. For a real double 2D input and a pair of type codes, the 2D entry point hands the
  extents to the fused planning call as \<open>(NY, NX)\<close> and the kinds as \<open>(kind of the second
  code, kind of the first code)\<close>: the kind of the x code travels with \<open>NX\<close> and the kind of the
  y code with \<open>NY\<close>. The requests for the codes \<open>[2, 3]\<close> and \<open>[3, 2]\<close> therefore differ,
  for every such input. What the backend computes from a request is outside this theory.
\<close>

theorem fused_2D_axis_order:
  assumes "mxIsDouble a" and "\<not> mxIsComplex a" and "mxGetDimensions a = [dx, dy]"
    and "mxIsDouble t" and "\<not> mxIsComplex t" and "mxGetNumberOfElements t = 2"
  shows "(assign_x cx = Inr kx \<and> assign_y cy = Inr ky \<longrightarrow>
            dtt2D 1 [a, t\<lparr>mxGetPr := [real_of_int cx, real_of_int cy]\<rparr>] =
              ([mxCreateNumericArray [dx, dy],
                fftw_plan_r2r_2d (int_of_mwSize dy) (int_of_mwSize dx) (mxGetPr a) ky kx,
                fftw_execute, fftw_destroy_plan], Inr ()))
       \<and> plan_and_execute_2D inp dims NX NY kx ky =
            ([mxCreateNumericArray dims, fftw_plan_r2r_2d NY NX inp ky kx,
              fftw_execute, fftw_destroy_plan], Inr ())
       \<and> dtt2D 1 [a, t\<lparr>mxGetPr := [2, 3]\<rparr>] =
            ([mxCreateNumericArray [dx, dy],
              fftw_plan_r2r_2d (int_of_mwSize dy) (int_of_mwSize dx) (mxGetPr a)
                FFTW_REDFT01 FFTW_REDFT10,
              fftw_execute, fftw_destroy_plan], Inr ())
       \<and> dtt2D 1 [a, t\<lparr>mxGetPr := [3, 2]\<rparr>] =
            ([mxCreateNumericArray [dx, dy],
              fftw_plan_r2r_2d (int_of_mwSize dy) (int_of_mwSize dx) (mxGetPr a)
                FFTW_REDFT10 FFTW_REDFT01,
              fftw_execute, fftw_destroy_plan], Inr ())
       \<and> dtt2D 1 [a, t\<lparr>mxGetPr := [2, 3]\<rparr>] \<noteq> dtt2D 1 [a, t\<lparr>mxGetPr := [3, 2]\<rparr>]"
proof -
  have inp: "get_input_2D a = Inr ([dx, dy], int_of_mwSize dx, int_of_mwSize dy)"
    using assms(1,2,3) by (rule get_input_2D_ok)
  have flags: "mxIsDouble (t\<lparr>mxGetPr := vs\<rparr>)" "\<not> mxIsComplex (t\<lparr>mxGetPr := vs\<rparr>)"
      "mxGetNumberOfElements (t\<lparr>mxGetPr := vs\<rparr>) = 2" for vs
    using assms(4,5,6) by (simp_all add: mxGetNumberOfElements_def)
  have general: "dtt2D 1 [a, t\<lparr>mxGetPr := [real_of_int cx, real_of_int cy]\<rparr>] =
              ([mxCreateNumericArray [dx, dy],
                fftw_plan_r2r_2d (int_of_mwSize dy) (int_of_mwSize dx) (mxGetPr a) ky kx,
                fftw_execute, fftw_destroy_plan], Inr ())"
    if "assign_x cx = Inr kx" "assign_y cy = Inr ky" for cx cy kx ky
  proof -
    have "get_DTT_type_2D (t\<lparr>mxGetPr := [real_of_int cx, real_of_int cy]\<rparr>) = Inr (kx, ky)"
      using flags that by (intro get_DTT_type_2D_pair) simp_all
    then show ?thesis using inp by (rule dtt2D_run)
  qed
  have r23: "dtt2D 1 [a, t\<lparr>mxGetPr := [2, 3]\<rparr>] =
            ([mxCreateNumericArray [dx, dy],
              fftw_plan_r2r_2d (int_of_mwSize dy) (int_of_mwSize dx) (mxGetPr a)
                FFTW_REDFT01 FFTW_REDFT10,
              fftw_execute, fftw_destroy_plan], Inr ())"
    using general [of 2 FFTW_REDFT10 3 FFTW_REDFT01]
    by (simp add: assign_x_def assign_y_def)
  have r32: "dtt2D 1 [a, t\<lparr>mxGetPr := [3, 2]\<rparr>] =
            ([mxCreateNumericArray [dx, dy],
              fftw_plan_r2r_2d (int_of_mwSize dy) (int_of_mwSize dx) (mxGetPr a)
                FFTW_REDFT10 FFTW_REDFT01,
              fftw_execute, fftw_destroy_plan], Inr ())"
    using general [of 3 FFTW_REDFT01 2 FFTW_REDFT10]
    by (simp add: assign_x_def assign_y_def)
  have neq: "dtt2D 1 [a, t\<lparr>mxGetPr := [2, 3]\<rparr>] \<noteq> dtt2D 1 [a, t\<lparr>mxGetPr := [3, 2]\<rparr>]"
    unfolding r23 r32 by simp
  have pe: "plan_and_execute_2D inp dims NX NY kx ky =
            ([mxCreateNumericArray dims, fftw_plan_r2r_2d NY NX inp ky kx,
              fftw_execute, fftw_destroy_plan], Inr ())"
    by (simp add: plan_and_execute_2D_def)
  from general [of cx kx cy ky] pe r23 r32 neq show ?thesis by blast
qed

text \<open>A 2 by 3 input with the codes \<open>[6, 1]\<close>.\<close>

theorem fused_2D_axis_order_witness:
  "dtt2D 1 [\<lparr>mxIsDouble = True, mxIsComplex = False, mxGetDimensions = [2, 3],
              mxGetPr = [1, 2, 3, 4, 5, 7]\<rparr>,
            \<lparr>mxIsDouble = True, mxIsComplex = False, mxGetDimensions = [1, 2],
              mxGetPr = [6, 1]\<rparr>] =
     ([mxCreateNumericArray [2, 3],
       fftw_plan_r2r_2d 3 2 [1, 2, 3, 4, 5, 7] FFTW_REDFT00 FFTW_RODFT10,
       fftw_execute, fftw_destroy_plan], Inr ())
   \<and> dtt2D 1 [\<lparr>mxIsDouble = True, mxIsComplex = False, mxGetDimensions = [2, 3],
              mxGetPr = [1, 2, 3, 4, 5, 7]\<rparr>,
            \<lparr>mxIsDouble = True, mxIsComplex = False, mxGetDimensions = [1, 2],
              mxGetPr = [2, 3]\<rparr>] \<noteq>
     dtt2D 1 [\<lparr>mxIsDouble = True, mxIsComplex = False, mxGetDimensions = [2, 3],
              mxGetPr = [1, 2, 3, 4, 5, 7]\<rparr>,
            \<lparr>mxIsDouble = True, mxIsComplex = False, mxGetDimensions = [1, 2],
              mxGetPr = [3, 2]\<rparr>]"
proof -
  let ?a = "\<lparr>mxIsDouble = True, mxIsComplex = False, mxGetDimensions = [2, 3],
              mxGetPr = [1, 2, 3, 4, 5, 7]\<rparr>"
  let ?t = "\<lparr>mxIsDouble = True, mxIsComplex = False, mxGetDimensions = [1, 2],
              mxGetPr = [6, 1]\<rparr>"
  have k: "assign_x 6 = Inr FFTW_RODFT10" "assign_y 1 = Inr FFTW_REDFT00"
    by (simp_all add: assign_x_def assign_y_def)
  have n: "mxGetNumberOfElements ?t = 2"
    by (simp add: mxGetNumberOfElements_def)
  have s: "int_of_mwSize 2 = 2" "int_of_mwSize 3 = 3"
    by (simp_all add: int_of_mwSize_def)
  show ?thesis
    using fused_2D_axis_order [of ?a 2 3 ?t 6 FFTW_RODFT10 1 FFTW_REDFT00] k n s
    by simp
qed

lemma dtt2D_always_traceless_error:
  assumes "get_DTT_type_2D (prhs ! 1) = Inl e"
  shows "\<exists>e'. dtt2D nlhs prhs = ([], Inl e')"
  using assms by (simp add: dtt2D_def split: sum.splits)

lemma get_DTT_type_2D_length:
  assumes "mxGetNumberOfElements p1 \<noteq> 1" "mxGetNumberOfElements p1 \<noteq> 2"
  shows "get_DTT_type_2D p1 =
    (if \<not> (mxIsDouble p1 \<and> \<not> mxIsComplex p1)
     then Inl (mexErrMsgTxt ''Input for DTT_TYPE must be real, and double precision.'')
     else Inl DTT_TYPE_length_error)"
  using assms by (simp add: get_DTT_type_2D_def)

subsection \<open>A type argument of another length\<close>

text \<open>
  C8. A call with two inputs, one output and a real double type argument whose type
  argument has neither one nor two elements ends in the message for the length of the
  type, before any output is created and before any plan is made: no call with an effect
  is made, so the input buffer is not touched. Whatever the argument counts and the class
  of the type argument, a call with such a type argument is aborted with no effect.
\<close>

theorem type_length_rejected:
  assumes "mxGetNumberOfElements (prhs ! 1) \<noteq> 1" and "mxGetNumberOfElements (prhs ! 1) \<noteq> 2"
  shows "(\<exists>e. dtt2D nlhs prhs = ([], Inl e))
       \<and> (length prhs = 2 \<and> nlhs = 1 \<and> mxIsDouble (prhs ! 1) \<and> \<not> mxIsComplex (prhs ! 1) \<longrightarrow>
            dtt2D nlhs prhs = ([], Inl DTT_TYPE_length_error))"
proof -
  have t: "get_DTT_type_2D (prhs ! 1) =
    (if \<not> (mxIsDouble (prhs ! 1) \<and> \<not> mxIsComplex (prhs ! 1))
     then Inl (mexErrMsgTxt ''Input for DTT_TYPE must be real, and double precision.'')
     else Inl DTT_TYPE_length_error)"
    using assms by (rule get_DTT_type_2D_length)
  then have "\<exists>e. get_DTT_type_2D (prhs ! 1) = Inl e"
    by simp
  then have fails: "\<exists>e. dtt2D nlhs prhs = ([], Inl e)"
    using dtt2D_always_traceless_error by blast
  have "dtt2D nlhs prhs = ([], Inl DTT_TYPE_length_error)"
    if "length prhs = 2" "nlhs = 1" "mxIsDouble (prhs ! 1)" "\<not> mxIsComplex (prhs ! 1)"
    using that t by (simp add: dtt2D_def check_inputs_outputs_2D_def)
  with fails show ?thesis by blast
qed

theorem type_length_rejected_witness:
  "mxGetNumberOfElements \<lparr>mxIsDouble = True, mxIsComplex = False, mxGetDimensions = [1, 3],
       mxGetPr = [1, 2, 3]\<rparr> = 3
   \<and> dtt2D 1 [\<lparr>mxIsDouble = True, mxIsComplex = False, mxGetDimensions = [2, 2],
                 mxGetPr = [1, 1, 1, 1]\<rparr>,
               \<lparr>mxIsDouble = True, mxIsComplex = False, mxGetDimensions = [1, 3],
                 mxGetPr = [1, 2, 3]\<rparr>] = ([], Inl DTT_TYPE_length_error)"
proof -
  let ?a = "\<lparr>mxIsDouble = True, mxIsComplex = False, mxGetDimensions = [2, 2],
             mxGetPr = [1, 1, 1, 1]\<rparr>"
  let ?t = "\<lparr>mxIsDouble = True, mxIsComplex = False, mxGetDimensions = [1, 3],
             mxGetPr = [1, 2, 3]\<rparr>"
  have n: "mxGetNumberOfElements ?t = 3"
    by (simp add: mxGetNumberOfElements_def)
  show ?thesis
    using type_length_rejected [of "[?a, ?t]" 1] n by simp
qed

lemma get_DIM_flags:
  "get_DIM (prhs[2 := (prhs ! 2)\<lparr>mxIsDouble := b, mxIsComplex := z\<rparr>]) = get_DIM prhs"
  by (simp add: get_DIM_def mxGetNumberOfElements_def)

lemma dtt1D_DIM_flags:
  "dtt1D nlhs (prhs[2 := (prhs ! 2)\<lparr>mxIsDouble := b, mxIsComplex := z\<rparr>]) = dtt1D nlhs prhs"
proof -
  have h: "prhs[2 := q] ! 0 = prhs ! 0" "prhs[2 := q] ! 1 = prhs ! 1"
      "length (prhs[2 := q]) = length prhs" for q
    by simp_all
  show ?thesis
    unfolding dtt1D_def get_DIM_flags h ..
qed

lemma get_DIM_given:
  assumes "length prhs = 3" "mxIsDouble (prhs ! 1)" "\<not> mxIsComplex (prhs ! 1)"
    and "mxGetNumberOfElements (prhs ! 2) = 1"
  shows "get_DIM prhs =
    (case read_code (mxGetPr (prhs ! 2)) 0 of
       Inl e \<Rightarrow> Inl e
     | Inr DIM \<Rightarrow> if DIM = 1 \<or> DIM = 2 then Inr DIM
                  else Inl (mexErrMsgTxt ''Input for DIM must be 1 or 2.''))"
  using assms by (simp add: get_DIM_def read_code_def split: sum.splits)

lemma dtt1D_run:
  assumes "length prhs = 2 \<or> length prhs = 3"
    and "get_DTT_type_1D (prhs ! 1) = Inr c"
    and "get_DIM prhs = Inr DIM"
    and "get_input_1D (prhs ! 0) = Inr (dims, NX, NY)"
  shows "dtt1D 1 prhs = plan_and_execute_1D (mxGetPr (prhs ! 0)) dims NX NY DIM c"
  using assms by (auto simp: dtt1D_def check_inputs_outputs_1D_def)

lemma codes_between: "(c = 1 \<or> c = 2 \<or> c = 3 \<or> c = 4 \<or> c = 5 \<or> c = 6 \<or> c = 7 \<or> c = 8)
    \<longleftrightarrow> 1 \<le> c \<and> c \<le> (8::int)"
  by auto

lemma get_DTT_type_1D_read:
  "get_DTT_type_1D p1 =
     (if \<not> (mxIsDouble p1 \<and> \<not> mxIsComplex p1 \<and> mxGetNumberOfElements p1 = 1)
      then Inl (mexErrMsgTxt ''Input for DTT_TYPE must be real, scalar, and double precision.'')
      else case read_code (mxGetPr p1) 0 of
             Inl e \<Rightarrow> Inl e
           | Inr c \<Rightarrow> if 1 \<le> c \<and> c \<le> 8 then Inr c else Inl InvalidTypeCode)"
  unfolding get_DTT_type_1D_def read_code_def codes_between Let_def
  by (simp split: sum.splits)

lemma get_DIM_type_test:
  assumes "length prhs = 3"
  shows "get_DIM prhs = Inl DIM_type_error \<longleftrightarrow>
    \<not> (mxIsDouble (prhs ! 1) \<and> \<not> mxIsComplex (prhs ! 1) \<and> mxGetNumberOfElements (prhs ! 2) = 1)"
proof (cases "mxIsDouble (prhs ! 1) \<and> \<not> mxIsComplex (prhs ! 1)
    \<and> mxGetNumberOfElements (prhs ! 2) = 1")
  case True
  then have "get_DIM prhs =
    (case read_code (mxGetPr (prhs ! 2)) 0 of
       Inl e \<Rightarrow> Inl e
     | Inr DIM \<Rightarrow> if DIM = 1 \<or> DIM = 2 then Inr DIM
                  else Inl (mexErrMsgTxt ''Input for DIM must be 1 or 2.''))"
    using assms get_DIM_given by blast
  moreover have "read_code p i = Inl e \<Longrightarrow> e = undefined_behaviour" for p i e
    by (auto simp: read_code_def read_double_def int_of_double_def Let_def
        split: sum.splits if_splits)
  ultimately have "get_DIM prhs \<noteq> Inl DIM_type_error"
    by (auto split: sum.splits)
  with True show ?thesis by simp
next
  case False
  then have "get_DIM prhs = Inl DIM_type_error"
    using assms by (auto simp: get_DIM_def)
  with False show ?thesis by simp
qed

lemma get_input_1D_not_DIM_type: "get_input_1D p \<noteq> Inl DIM_type_error"
  by (auto simp: get_input_1D_def read_dim_def int_mult_def Let_def split: sum.splits if_splits)

lemma plan_and_execute_1D_not_DIM_type:
  "snd (plan_and_execute_1D inp dims NX NY DIM c) \<noteq> Inl DIM_type_error"
  by (auto simp: plan_and_execute_1D_def define_plan_variables_def set_DTT_type_def Let_def
      split: if_splits)

lemma dtt1D_DIM_count:
  assumes "length prhs = 3" and "nlhs = 1" and "get_DTT_type_1D (prhs ! 1) = Inr c"
    and "mxGetNumberOfElements (prhs ! 2) \<noteq> 1"
  shows "dtt1D nlhs prhs = ([], Inl DIM_type_error)"
proof -
  have "get_DIM prhs = Inl DIM_type_error"
    using assms(1,4) get_DIM_type_test by blast
  with assms(1,2,3) show ?thesis
    by (simp add: dtt1D_def check_inputs_outputs_1D_def)
qed

lemma dtt1D_DIM_passes:
  assumes "length prhs = 3" and "mxIsDouble (prhs ! 1)" and "\<not> mxIsComplex (prhs ! 1)"
    and "mxGetNumberOfElements (prhs ! 2) = 1"
  shows "snd (dtt1D nlhs prhs) \<noteq> Inl DIM_type_error"
proof -
  have dim: "get_DIM prhs \<noteq> Inl DIM_type_error"
    using assms get_DIM_type_test by blast
  have ty: "get_DTT_type_1D (prhs ! 1) \<noteq> Inl DIM_type_error"
    by (auto simp: get_DTT_type_1D_def read_double_def int_of_double_def Let_def
        split: sum.splits if_splits)
  show ?thesis
  proof (cases "check_inputs_outputs_1D nlhs (int (length prhs))")
    case (Inl e)
    then show ?thesis
      by (auto simp: dtt1D_def check_inputs_outputs_1D_def split: if_splits)
  next
    case chk: (Inr u)
    show ?thesis
    proof (cases "get_DTT_type_1D (prhs ! 1)")
      case (Inl e)
      with chk ty show ?thesis by (auto simp: dtt1D_def)
    next
      case t: (Inr c)
      show ?thesis
      proof (cases "get_DIM prhs")
        case (Inl e)
        with chk t dim show ?thesis by (auto simp: dtt1D_def)
      next
        case d: (Inr DIM)
        show ?thesis
        proof (cases "get_input_1D (prhs ! 0)")
          case (Inl e)
          with chk t d get_input_1D_not_DIM_type [of "prhs ! 0"] show ?thesis
            by (auto simp: dtt1D_def)
        next
          case (Inr r)
          obtain dims NX NY where "r = (dims, NX, NY)"
            by (cases r) auto
          with Inr chk t d plan_and_execute_1D_not_DIM_type show ?thesis
            by (simp add: dtt1D_def)
        qed
      qed
    qed
  qed
qed

subsection \<open>The type test of the DIM argument\<close>

text \<open>
  C9. With three inputs, the type test of the DIM argument (line 91) inspects the
  DTT_TYPE argument \<^verbatim>\<open>prhs[1]\<close>; of the DIM argument \<^verbatim>\<open>prhs[2]\<close> only the number of
  elements is tested. The test fails exactly when \<^verbatim>\<open>prhs[1]\<close> is not a real double or
  \<^verbatim>\<open>prhs[2]\<close> has not one element, and a DIM argument of another length ends the call with
  the message of the test. So with a real double DTT_TYPE and a DIM argument of one
  element the test is passed, whether or not the DIM argument is double or complex: the
  first value found at its data pointer is converted to \<^verbatim>\<open>int\<close> and used, the call does not
  end in the message of the test, and the whole call does not depend on these two
  properties of the DIM argument.
\<close>

theorem DIM_type_check_reads_DTT_TYPE:
  assumes "length prhs = 3"
  shows "(get_DIM prhs = Inl DIM_type_error \<longleftrightarrow>
            \<not> (mxIsDouble (prhs ! 1) \<and> \<not> mxIsComplex (prhs ! 1)
               \<and> mxGetNumberOfElements (prhs ! 2) = 1))
       \<and> (nlhs = 1 \<and> get_DTT_type_1D (prhs ! 1) = Inr c
            \<and> mxGetNumberOfElements (prhs ! 2) \<noteq> 1 \<longrightarrow>
            dtt1D nlhs prhs = ([], Inl DIM_type_error))
       \<and> (mxIsDouble (prhs ! 1) \<and> \<not> mxIsComplex (prhs ! 1)
            \<and> mxGetNumberOfElements (prhs ! 2) = 1 \<longrightarrow>
            get_DIM prhs =
              (case read_code (mxGetPr (prhs ! 2)) 0 of
                 Inl e \<Rightarrow> Inl e
               | Inr DIM \<Rightarrow> if DIM = 1 \<or> DIM = 2 then Inr DIM
                            else Inl (mexErrMsgTxt ''Input for DIM must be 1 or 2.''))
            \<and> get_DIM prhs \<noteq> Inl DIM_type_error
            \<and> snd (dtt1D nlhs prhs) \<noteq> Inl DIM_type_error)
       \<and> get_DIM (prhs[2 := (prhs ! 2)\<lparr>mxIsDouble := b, mxIsComplex := z\<rparr>]) = get_DIM prhs
       \<and> dtt1D nlhs (prhs[2 := (prhs ! 2)\<lparr>mxIsDouble := b, mxIsComplex := z\<rparr>]) =
           dtt1D nlhs prhs"
proof -
  have test: "get_DIM prhs = Inl DIM_type_error \<longleftrightarrow>
            \<not> (mxIsDouble (prhs ! 1) \<and> \<not> mxIsComplex (prhs ! 1)
               \<and> mxGetNumberOfElements (prhs ! 2) = 1)"
    using assms by (rule get_DIM_type_test)
  have count: "nlhs = 1 \<and> get_DTT_type_1D (prhs ! 1) = Inr c
            \<and> mxGetNumberOfElements (prhs ! 2) \<noteq> 1 \<longrightarrow>
            dtt1D nlhs prhs = ([], Inl DIM_type_error)"
    using assms dtt1D_DIM_count by blast
  have passed: "get_DIM prhs =
              (case read_code (mxGetPr (prhs ! 2)) 0 of
                 Inl e \<Rightarrow> Inl e
               | Inr DIM \<Rightarrow> if DIM = 1 \<or> DIM = 2 then Inr DIM
                            else Inl (mexErrMsgTxt ''Input for DIM must be 1 or 2.''))
            \<and> get_DIM prhs \<noteq> Inl DIM_type_error
            \<and> snd (dtt1D nlhs prhs) \<noteq> Inl DIM_type_error"
    if h: "mxIsDouble (prhs ! 1)" "\<not> mxIsComplex (prhs ! 1)"
      "mxGetNumberOfElements (prhs ! 2) = 1"
    using get_DIM_given [OF assms h] test h dtt1D_DIM_passes [OF assms h] by simp
  from test count passed get_DIM_flags dtt1D_DIM_flags show ?thesis by blast
qed

text \<open>
  A DIM argument that is complex and not double is accepted and read as 2; a real double
  DIM argument of two elements is refused.
\<close>

theorem DIM_type_check_reads_DTT_TYPE_witness:
  "get_DIM [\<lparr>mxIsDouble = True, mxIsComplex = False, mxGetDimensions = [2, 3],
              mxGetPr = [1, 2, 3, 4, 5, 6]\<rparr>,
            \<lparr>mxIsDouble = True, mxIsComplex = False, mxGetDimensions = [1, 1],
              mxGetPr = [2]\<rparr>,
            \<lparr>mxIsDouble = False, mxIsComplex = True, mxGetDimensions = [1, 1],
              mxGetPr = [2]\<rparr>] = Inr 2
   \<and> dtt1D 1 [\<lparr>mxIsDouble = True, mxIsComplex = False, mxGetDimensions = [2, 3],
              mxGetPr = [1, 2, 3, 4, 5, 6]\<rparr>,
            \<lparr>mxIsDouble = True, mxIsComplex = False, mxGetDimensions = [1, 1],
              mxGetPr = [2]\<rparr>,
            \<lparr>mxIsDouble = False, mxIsComplex = True, mxGetDimensions = [1, 1],
              mxGetPr = [2]\<rparr>] =
       ([mxCreateNumericArray [2, 3], fftw_malloc,
         fftw_plan_many_r2r 1 3 2 [1, 2, 3, 4, 5, 6] 2 1 2 1 FFTW_REDFT10,
         fftw_execute, fftw_destroy_plan, fftw_free], Inr ())
   \<and> dtt1D 1 [\<lparr>mxIsDouble = True, mxIsComplex = False, mxGetDimensions = [2, 3],
              mxGetPr = [1, 2, 3, 4, 5, 6]\<rparr>,
            \<lparr>mxIsDouble = True, mxIsComplex = False, mxGetDimensions = [1, 1],
              mxGetPr = [2]\<rparr>,
            \<lparr>mxIsDouble = True, mxIsComplex = False, mxGetDimensions = [1, 2],
              mxGetPr = [1, 2]\<rparr>] = ([], Inl DIM_type_error)"
proof -
  let ?d2 = "\<lparr>mxIsDouble = True, mxIsComplex = False, mxGetDimensions = [1, 2],
              mxGetPr = [1, 2]\<rparr>"
  let ?a = "\<lparr>mxIsDouble = True, mxIsComplex = False, mxGetDimensions = [2, 3],
              mxGetPr = [1, 2, 3, 4, 5, 6]\<rparr>"
  let ?t = "\<lparr>mxIsDouble = True, mxIsComplex = False, mxGetDimensions = [1, 1],
              mxGetPr = [2]\<rparr>"
  let ?d = "\<lparr>mxIsDouble = False, mxIsComplex = True, mxGetDimensions = [1, 1],
              mxGetPr = [2]\<rparr>"
  have r: "read_code [2] 0 = Inr 2"
    by (simp add: read_code_def read_double_def int_of_double_def c_trunc_def)
  have n: "mxGetNumberOfElements ?d = 1" "mxGetNumberOfElements ?t = 1"
    by (simp_all add: mxGetNumberOfElements_def)
  have dim: "get_DIM [?a, ?t, ?d] = Inr 2"
    using DIM_type_check_reads_DTT_TYPE [of "[?a, ?t, ?d]" 1 2 True False] n r by simp
  have ty: "get_DTT_type_1D ?t = Inr 2"
    by (simp add: get_DTT_type_1D_read mxGetNumberOfElements_def r)
  have n2: "mxGetNumberOfElements ?d2 = 2"
    by (simp add: mxGetNumberOfElements_def)
  have refused: "dtt1D 1 [?a, ?t, ?d2] = ([], Inl DIM_type_error)"
    using DIM_type_check_reads_DTT_TYPE [of "[?a, ?t, ?d2]" 1 2 True False] ty n2 by simp
  have s: "int_of_mwSize 2 = 2" "int_of_mwSize 3 = 3"
    by (simp_all add: int_of_mwSize_def)
  have inp: "get_input_1D ?a = Inr ([2, 3], 2, 3)"
    by (simp add: get_input_1D_def mxGetNumberOfDimensions_def read_dim_def s int_mult_def)
  have "dtt1D 1 [?a, ?t, ?d] = plan_and_execute_1D (mxGetPr ?a) [2, 3] 2 3 2 2"
    using dtt1D_run [of "[?a, ?t, ?d]" 2 2 "[2, 3]" 2 3] dim ty inp by simp
  also have "\<dots> = ([mxCreateNumericArray [2, 3], fftw_malloc,
         fftw_plan_many_r2r 1 3 2 [1, 2, 3, 4, 5, 6] 2 1 2 1 FFTW_REDFT10,
         fftw_execute, fftw_destroy_plan, fftw_free], Inr ())"
    by (simp add: plan_and_execute_1D_def force_DIM_def define_plan_variables_def
        set_DTT_type_def)
  finally show ?thesis using dim refused by simp
qed

lemma read_code_truncated:
  "read_code (map (\<lambda>v. real_of_int (c_trunc v)) p) i = read_code p i"
  by (simp add: read_code_def read_double_def int_of_double_of_int_trunc)

lemma with_truncated_codes_fields:
  "mxIsDouble (with_truncated_codes p) = mxIsDouble p"
  "mxIsComplex (with_truncated_codes p) = mxIsComplex p"
  "mxGetNumberOfElements (with_truncated_codes p) = mxGetNumberOfElements p"
  "mxGetPr (with_truncated_codes p) = map (\<lambda>v. real_of_int (c_trunc v)) (mxGetPr p)"
  by (simp_all add: with_truncated_codes_def mxGetNumberOfElements_def)

lemma get_DTT_type_1D_truncated:
  "get_DTT_type_1D (with_truncated_codes p) = get_DTT_type_1D p"
  unfolding get_DTT_type_1D_read with_truncated_codes_fields read_code_truncated ..

lemma get_DTT_type_2D_truncated:
  "get_DTT_type_2D (with_truncated_codes p) = get_DTT_type_2D p"
  unfolding get_DTT_type_2D_def Let_def with_truncated_codes_fields read_code_truncated ..

lemma get_DIM_truncated:
  "get_DIM (prhs[1 := with_truncated_codes (prhs ! 1)]) = get_DIM prhs"
proof (cases "length prhs = 3")
  case True
  then have "prhs[1 := with_truncated_codes (prhs ! 1)] ! 1 = with_truncated_codes (prhs ! 1)"
    by simp
  then show ?thesis
    by (simp add: get_DIM_def with_truncated_codes_fields)
next
  case False
  then show ?thesis by (simp add: get_DIM_def)
qed

lemma dtt1D_truncated:
  "dtt1D nlhs (prhs[1 := with_truncated_codes (prhs ! 1)]) = dtt1D nlhs prhs"
proof (cases "1 < length prhs")
  case True
  have h: "prhs[1 := q] ! 0 = prhs ! 0" "length (prhs[1 := q]) = length prhs" for q
    by simp_all
  have h1: "prhs[1 := q] ! 1 = q" for q
    using True by simp
  show ?thesis
    unfolding dtt1D_def get_DIM_truncated h h1 get_DTT_type_1D_truncated ..
next
  case False
  then have "prhs[1 := q] = prhs" for q by (simp add: list_update_beyond)
  then show ?thesis by simp
qed

lemma dtt2D_truncated:
  "dtt2D nlhs (prhs[1 := with_truncated_codes (prhs ! 1)]) = dtt2D nlhs prhs"
proof (cases "1 < length prhs")
  case True
  have h: "prhs[1 := q] ! 0 = prhs ! 0" "length (prhs[1 := q]) = length prhs" for q
    by simp_all
  have h1: "prhs[1 := q] ! 1 = q" for q
    using True by simp
  show ?thesis
    unfolding dtt2D_def h h1 get_DTT_type_2D_truncated ..
next
  case False
  then have "prhs[1 := q] = prhs" for q by (simp add: list_update_beyond)
  then show ?thesis by simp
qed

lemma read_code_Inr:
  assumes "read_code p i = Inr c"
  shows "i < length p \<and> c = c_trunc (p ! i)"
  using assms
  by (auto simp: read_code_def read_double_def int_of_double_def Let_def split: if_splits)

lemma read_code_in_range:
  assumes "\<forall>v\<in>set p. 1 \<le> c_trunc v \<and> c_trunc v \<le> 8" and "read_code p i = Inr c"
  shows "1 \<le> c \<and> c \<le> 8"
proof -
  from assms(2) have "i < length p" "c = c_trunc (p ! i)"
    using read_code_Inr by blast+
  with assms(1) show ?thesis by simp
qed

lemma read_code_Inl: "read_code p i = Inl e \<Longrightarrow> e = undefined_behaviour"
  by (auto simp: read_code_def read_double_def int_of_double_def Let_def
      split: sum.splits if_splits)

lemma read_code_not_message: "read_code p i \<noteq> Inl (mexErrMsgTxt m)"
  using read_code_Inl by blast

lemma get_DTT_type_1D_accepts:
  assumes "\<forall>v\<in>set (mxGetPr p). 1 \<le> c_trunc v \<and> c_trunc v \<le> 8"
  shows "get_DTT_type_1D p \<noteq> Inl InvalidTypeCode"
  unfolding get_DTT_type_1D_read
  using read_code_in_range [OF assms]
  by (auto simp: read_code_not_message split: sum.splits)

lemma get_DTT_type_1D_Inr: "get_DTT_type_1D p = Inr c \<Longrightarrow> 1 \<le> c \<and> c \<le> 8"
  unfolding get_DTT_type_1D_read by (auto split: sum.splits if_splits)

lemma get_DTT_type_2D_accepts:
  assumes "\<forall>v\<in>set (mxGetPr p). 1 \<le> c_trunc v \<and> c_trunc v \<le> 8"
  shows "get_DTT_type_2D p \<noteq> Inl InvalidTypeCode"
proof -
  have ok: "\<exists>k. set_DTT_type c = Inr k" if "read_code (mxGetPr p) i = Inr c" for i c
    using read_code_in_range [OF assms that] set_DTT_type_inside by blast
  show ?thesis
    unfolding get_DTT_type_2D_def assign_x_eq assign_y_eq assign_scalar_eq Let_def
    using ok
    by (auto simp: read_code_not_message split: sum.splits) fastforce+
qed

lemma get_DIM_not_type_code: "get_DIM prhs \<noteq> Inl InvalidTypeCode"
  by (auto simp: get_DIM_def read_double_def int_of_double_def Let_def split: sum.splits if_splits)

lemma get_input_1D_not_type_code: "get_input_1D p \<noteq> Inl InvalidTypeCode"
  by (auto simp: get_input_1D_def read_dim_def int_mult_def Let_def split: sum.splits if_splits)

lemma get_input_2D_not_type_code: "get_input_2D p \<noteq> Inl InvalidTypeCode"
  by (auto simp: get_input_2D_def read_dim_def Let_def split: sum.splits if_splits)

lemma plan_and_execute_1D_accepts:
  assumes "1 \<le> c" "c \<le> 8"
  shows "snd (plan_and_execute_1D inp dims NX NY DIM c) \<noteq> Inl InvalidTypeCode"
proof -
  obtain k where "set_DTT_type c = Inr k"
    using assms set_DTT_type_inside by blast
  then show ?thesis
    by (auto simp: plan_and_execute_1D_def define_plan_variables_def Let_def split: if_splits)
qed

lemma dtt1D_accepts:
  assumes "\<forall>v\<in>set (mxGetPr (prhs ! 1)). 1 \<le> c_trunc v \<and> c_trunc v \<le> 8"
  shows "snd (dtt1D nlhs prhs) \<noteq> Inl InvalidTypeCode"
proof (cases "check_inputs_outputs_1D nlhs (int (length prhs))")
  case (Inl e)
  then show ?thesis
    by (auto simp: dtt1D_def check_inputs_outputs_1D_def split: if_splits)
next
  case chk: (Inr u)
  show ?thesis
  proof (cases "get_DTT_type_1D (prhs ! 1)")
    case (Inl e)
    with chk get_DTT_type_1D_accepts [OF assms] show ?thesis
      by (auto simp: dtt1D_def)
  next
    case ty: (Inr c)
    then have c: "1 \<le> c" "c \<le> 8"
      using get_DTT_type_1D_Inr by blast+
    show ?thesis
    proof (cases "get_DIM prhs")
      case (Inl e)
      with chk ty get_DIM_not_type_code [of prhs] show ?thesis
        by (auto simp: dtt1D_def)
    next
      case dim: (Inr DIM)
      show ?thesis
      proof (cases "get_input_1D (prhs ! 0)")
        case (Inl e)
        with chk ty dim get_input_1D_not_type_code [of "prhs ! 0"] show ?thesis
          by (auto simp: dtt1D_def)
      next
        case (Inr r)
        obtain dims NX NY where "r = (dims, NX, NY)"
          by (cases r) auto
        with Inr chk ty dim plan_and_execute_1D_accepts [OF c] show ?thesis
          by (simp add: dtt1D_def)
      qed
    qed
  qed
qed

lemma dtt2D_accepts:
  assumes "\<forall>v\<in>set (mxGetPr (prhs ! 1)). 1 \<le> c_trunc v \<and> c_trunc v \<le> 8"
  shows "snd (dtt2D nlhs prhs) \<noteq> Inl InvalidTypeCode"
proof (cases "check_inputs_outputs_2D nlhs (int (length prhs))")
  case (Inl e)
  then show ?thesis
    by (auto simp: dtt2D_def check_inputs_outputs_2D_def split: if_splits)
next
  case chk: (Inr u)
  show ?thesis
  proof (cases "get_DTT_type_2D (prhs ! 1)")
    case (Inl e)
    with chk get_DTT_type_2D_accepts [OF assms] show ?thesis
      by (auto simp: dtt2D_def)
  next
    case ty: (Inr ks)
    show ?thesis
    proof (cases "get_input_2D (prhs ! 0)")
      case (Inl e)
      with chk ty get_input_2D_not_type_code [of "prhs ! 0"] show ?thesis
        by (auto simp: dtt2D_def split: prod.splits)
    next
      case (Inr r)
      with chk ty show ?thesis
        by (auto simp: dtt2D_def plan_and_execute_2D_def split: prod.splits)
    qed
  qed
qed

lemma c_trunc_toward_zero:
  "\<bar>real_of_int (c_trunc v)\<bar> \<le> \<bar>v\<bar> \<and> \<bar>v\<bar> < \<bar>real_of_int (c_trunc v)\<bar> + 1
   \<and> (0 \<le> v \<longrightarrow> 0 \<le> c_trunc v) \<and> (v \<le> 0 \<longrightarrow> c_trunc v \<le> 0)"
proof (cases "0 \<le> v")
  case True
  then have "c_trunc v = \<lfloor>v\<rfloor>" "0 \<le> \<lfloor>v\<rfloor>"
    by (simp_all add: c_trunc_def)
  moreover have "real_of_int \<lfloor>v\<rfloor> \<le> v" "v < real_of_int \<lfloor>v\<rfloor> + 1"
    by linarith+
  moreover have "\<lfloor>v\<rfloor> \<le> 0" if "v \<le> 0"
    using that by (simp add: floor_le_iff)
  ultimately show ?thesis using True by auto
next
  case False
  then have "c_trunc v = \<lceil>v\<rceil>" "\<lceil>v\<rceil> \<le> 0"
    by (simp_all add: c_trunc_def ceiling_le_iff)
  moreover have "v \<le> real_of_int \<lceil>v\<rceil>" "real_of_int \<lceil>v\<rceil> - 1 < v"
    by linarith+
  ultimately show ?thesis using False by auto
qed

lemma c_trunc_code_range: "1 \<le> c_trunc v \<and> c_trunc v \<le> 8 \<longleftrightarrow> 1 \<le> v \<and> v < 9"
proof (cases "0 \<le> v")
  case True
  then have "c_trunc v = \<lfloor>v\<rfloor>"
    by (simp add: c_trunc_def)
  moreover have "1 \<le> \<lfloor>v\<rfloor> \<longleftrightarrow> 1 \<le> v"
    by (simp add: le_floor_iff)
  moreover have "\<lfloor>v\<rfloor> \<le> 8 \<longleftrightarrow> v < 9"
    by (simp add: floor_le_iff)
  ultimately show ?thesis by simp
next
  case False
  then have "c_trunc v \<le> 0"
    by (simp add: c_trunc_def ceiling_le_iff)
  with False show ?thesis by simp
qed

lemma int_of_double_representable:
  "- (2 ^ 31) \<le> c_trunc v \<and> c_trunc v \<le> 2 ^ 31 - 1 \<longrightarrow> int_of_double v = Inr (c_trunc v)"
  by (simp add: int_of_double_def)

lemma read_code_first:
  assumes "1 \<le> c_trunc v" "c_trunc v \<le> 8"
  shows "read_code (v # vs) 0 = Inr (c_trunc v)"
  using assms by (simp add: read_code_def read_double_def int_of_double_def)

lemma read_code_second:
  assumes "1 \<le> c_trunc w" "c_trunc w \<le> 8"
  shows "read_code (v # w # vs) (Suc 0) = Inr (c_trunc w)"
  using assms by (simp add: read_code_def read_double_def int_of_double_def)

lemma scalar_type_read:
  "1 \<le> c_trunc v \<and> c_trunc v \<le> 8 \<and> mxIsDouble t \<and> \<not> mxIsComplex t
     \<and> mxGetNumberOfElements t = 1 \<and> mxGetPr t = [v] \<longrightarrow>
   get_DTT_type_1D t = Inr (c_trunc v) \<and> get_DTT_type_2D t = assign_scalar (c_trunc v)"
  by (simp add: get_DTT_type_1D_read get_DTT_type_2D_def read_code_first)

lemma pair_type_read:
  "mxIsDouble t \<and> \<not> mxIsComplex t \<and> mxGetNumberOfElements t = 2 \<and> mxGetPr t = [v, w]
     \<and> assign_x (c_trunc v) = Inr kx \<and> assign_y (c_trunc w) = Inr ky \<longrightarrow>
   get_DTT_type_2D t = Inr (kx, ky)"
proof (intro impI, elim conjE)
  assume t: "mxIsDouble t" "\<not> mxIsComplex t" "mxGetNumberOfElements t = 2" "mxGetPr t = [v, w]"
    and k: "assign_x (c_trunc v) = Inr kx" "assign_y (c_trunc w) = Inr ky"
  from k(1) have "1 \<le> c_trunc v \<and> c_trunc v \<le> 8"
    using set_DTT_type_Inr_iff [of "c_trunc v"] by (auto simp: assign_x_eq)
  then have x: "read_code (mxGetPr t) 0 = Inr (c_trunc v)"
    by (simp add: t(4) read_code_first)
  from k(2) have "1 \<le> c_trunc w \<and> c_trunc w \<le> 8"
    using set_DTT_type_Inr_iff [of "c_trunc w"] by (auto simp: assign_y_eq)
  then have y: "read_code (mxGetPr t) (Suc 0) = Inr (c_trunc w)"
    by (simp add: t(4) read_code_second)
  show "get_DTT_type_2D t = Inr (kx, ky)"
    using t(1,2,3) k by (simp add: get_DTT_type_2D_def x y)
qed

lemma dtt1D_run_truncated:
  "nlhs = 1 \<and> (length prhs = 2 \<or> length prhs = 3)
     \<and> mxIsDouble (prhs ! 1) \<and> \<not> mxIsComplex (prhs ! 1)
     \<and> mxGetNumberOfElements (prhs ! 1) = 1 \<and> mxGetPr (prhs ! 1) = [v]
     \<and> 1 \<le> c_trunc v \<and> c_trunc v \<le> 8
     \<and> get_DIM prhs = Inr DIM \<and> get_input_1D (prhs ! 0) = Inr (dims, NX, NY) \<longrightarrow>
   dtt1D nlhs prhs = plan_and_execute_1D (mxGetPr (prhs ! 0)) dims NX NY DIM (c_trunc v)"
  using scalar_type_read [of v "prhs ! 1"] dtt1D_run [of prhs "c_trunc v" DIM dims NX NY]
  by blast

lemma dtt2D_run_scalar_truncated:
  "mxIsDouble t \<and> \<not> mxIsComplex t \<and> mxGetNumberOfElements t = 1 \<and> mxGetPr t = [v]
     \<and> set_DTT_type (c_trunc v) = Inr k \<and> get_input_2D a = Inr (dims, NX, NY) \<longrightarrow>
   dtt2D 1 [a, t] =
     ([mxCreateNumericArray dims, fftw_plan_r2r_2d NY NX (mxGetPr a) k k,
       fftw_execute, fftw_destroy_plan], Inr ())"
proof (intro impI, elim conjE)
  assume t: "mxIsDouble t" "\<not> mxIsComplex t" "mxGetNumberOfElements t = 1" "mxGetPr t = [v]"
    and k: "set_DTT_type (c_trunc v) = Inr k" and a: "get_input_2D a = Inr (dims, NX, NY)"
  from k have "1 \<le> c_trunc v \<and> c_trunc v \<le> 8"
    using set_DTT_type_Inr_iff [of "c_trunc v"] by auto
  with t have "get_DTT_type_2D t = assign_scalar (c_trunc v)"
    using scalar_type_read [of v t] by blast
  with k have "get_DTT_type_2D t = Inr (k, k)"
    by (simp add: assign_scalar_eq)
  then show "dtt2D 1 [a, t] =
     ([mxCreateNumericArray dims, fftw_plan_r2r_2d NY NX (mxGetPr a) k k,
       fftw_execute, fftw_destroy_plan], Inr ())"
    using a by (rule dtt2D_run)
qed

lemma dtt2D_run_pair_truncated:
  "mxIsDouble t \<and> \<not> mxIsComplex t \<and> mxGetNumberOfElements t = 2 \<and> mxGetPr t = [v, w]
     \<and> assign_x (c_trunc v) = Inr kx \<and> assign_y (c_trunc w) = Inr ky
     \<and> get_input_2D a = Inr (dims, NX, NY) \<longrightarrow>
   dtt2D 1 [a, t] =
     ([mxCreateNumericArray dims, fftw_plan_r2r_2d NY NX (mxGetPr a) ky kx,
       fftw_execute, fftw_destroy_plan], Inr ())"
  using pair_type_read [of t v w kx ky] dtt2D_run [of t kx ky a dims NX NY]
  by blast

subsection \<open>Type codes with a fractional part\<close>

text \<open>
  C10. Both entry points convert the type argument to \<^verbatim>\<open>int\<close> before they test it. The
  conversion truncates toward zero: the code read from a value \<open>v\<close> is the integer of the
  same sign whose magnitude is the integral part of the magnitude of \<open>v\<close>, so it lies in
  1..8 exactly when \<open>1 \<le> v < 9\<close>. A value with such a code is accepted: the type read by
  the 1D entry point is the code, the kinds read by the 2D entry point are those of the
  codes, and a call that passes the other tests runs to its end with them. A call behaves
  exactly as the call with every value of the type argument replaced by its integral
  part, and when the integral parts lie in 1..8 the call does not end in the message for
  an invalid type code.
\<close>

theorem type_code_truncated:
  "\<bar>real_of_int (c_trunc v)\<bar> \<le> \<bar>v\<bar> \<and> \<bar>v\<bar> < \<bar>real_of_int (c_trunc v)\<bar> + 1
   \<and> (0 \<le> v \<longrightarrow> 0 \<le> c_trunc v) \<and> (v \<le> 0 \<longrightarrow> c_trunc v \<le> 0)
   \<and> (- (2 ^ 31) \<le> c_trunc v \<and> c_trunc v \<le> 2 ^ 31 - 1 \<longrightarrow>
        int_of_double v = Inr (c_trunc v))
   \<and> (1 \<le> c_trunc v \<and> c_trunc v \<le> 8 \<longleftrightarrow> 1 \<le> v \<and> v < 9)
   \<and> (1 \<le> c_trunc v \<and> c_trunc v \<le> 8 \<and> mxIsDouble t \<and> \<not> mxIsComplex t
        \<and> mxGetNumberOfElements t = 1 \<and> mxGetPr t = [v] \<longrightarrow>
        get_DTT_type_1D t = Inr (c_trunc v) \<and> get_DTT_type_2D t = assign_scalar (c_trunc v))
   \<and> (mxIsDouble t \<and> \<not> mxIsComplex t \<and> mxGetNumberOfElements t = 2 \<and> mxGetPr t = [v, w]
        \<and> assign_x (c_trunc v) = Inr kx \<and> assign_y (c_trunc w) = Inr ky \<longrightarrow>
        get_DTT_type_2D t = Inr (kx, ky))
   \<and> (nlhs = 1 \<and> (length prhs = 2 \<or> length prhs = 3)
        \<and> mxIsDouble (prhs ! 1) \<and> \<not> mxIsComplex (prhs ! 1)
        \<and> mxGetNumberOfElements (prhs ! 1) = 1 \<and> mxGetPr (prhs ! 1) = [v]
        \<and> 1 \<le> c_trunc v \<and> c_trunc v \<le> 8
        \<and> get_DIM prhs = Inr DIM \<and> get_input_1D (prhs ! 0) = Inr (dims, NX, NY) \<longrightarrow>
        dtt1D nlhs prhs = plan_and_execute_1D (mxGetPr (prhs ! 0)) dims NX NY DIM (c_trunc v))
   \<and> (mxIsDouble t \<and> \<not> mxIsComplex t \<and> mxGetNumberOfElements t = 1 \<and> mxGetPr t = [v]
        \<and> set_DTT_type (c_trunc v) = Inr k \<and> get_input_2D a = Inr (dims, NX, NY) \<longrightarrow>
        dtt2D 1 [a, t] =
          ([mxCreateNumericArray dims, fftw_plan_r2r_2d NY NX (mxGetPr a) k k,
            fftw_execute, fftw_destroy_plan], Inr ()))
   \<and> (mxIsDouble t \<and> \<not> mxIsComplex t \<and> mxGetNumberOfElements t = 2 \<and> mxGetPr t = [v, w]
        \<and> assign_x (c_trunc v) = Inr kx \<and> assign_y (c_trunc w) = Inr ky
        \<and> get_input_2D a = Inr (dims, NX, NY) \<longrightarrow>
        dtt2D 1 [a, t] =
          ([mxCreateNumericArray dims, fftw_plan_r2r_2d NY NX (mxGetPr a) ky kx,
            fftw_execute, fftw_destroy_plan], Inr ()))
   \<and> dtt1D nlhs (prhs[1 := with_truncated_codes (prhs ! 1)]) = dtt1D nlhs prhs
   \<and> dtt2D nlhs (prhs[1 := with_truncated_codes (prhs ! 1)]) = dtt2D nlhs prhs
   \<and> ((\<forall>v\<in>set (mxGetPr (prhs ! 1)). 1 \<le> c_trunc v \<and> c_trunc v \<le> 8) \<longrightarrow>
        snd (dtt1D nlhs prhs) \<noteq> Inl InvalidTypeCode
        \<and> snd (dtt2D nlhs prhs) \<noteq> Inl InvalidTypeCode)"
proof -
  have accepted: "(\<forall>v\<in>set (mxGetPr (prhs ! 1)). 1 \<le> c_trunc v \<and> c_trunc v \<le> 8) \<longrightarrow>
        snd (dtt1D nlhs prhs) \<noteq> Inl InvalidTypeCode
        \<and> snd (dtt2D nlhs prhs) \<noteq> Inl InvalidTypeCode"
    using dtt1D_accepts dtt2D_accepts by blast
  show ?thesis
    by (intro conjI c_trunc_toward_zero [THEN conjunct1]
        c_trunc_toward_zero [THEN conjunct2, THEN conjunct1]
        c_trunc_toward_zero [THEN conjunct2, THEN conjunct2, THEN conjunct1]
        c_trunc_toward_zero [THEN conjunct2, THEN conjunct2, THEN conjunct2]
        int_of_double_representable c_trunc_code_range scalar_type_read pair_type_read
        dtt1D_run_truncated dtt2D_run_scalar_truncated dtt2D_run_pair_truncated
        dtt1D_truncated dtt2D_truncated accepted)
qed

text \<open>The value 2.9 is taken as type 2, the value 8.9 as type 8.\<close>

theorem type_code_truncated_witness:
  "c_trunc (29 / 10) = 2 \<and> c_trunc (89 / 10) = 8
   \<and> get_DTT_type_1D \<lparr>mxIsDouble = True, mxIsComplex = False, mxGetDimensions = [1, 1],
                mxGetPr = [29 / 10]\<rparr> = Inr 2
   \<and> dtt1D 1 [\<lparr>mxIsDouble = True, mxIsComplex = False, mxGetDimensions = [2, 3],
                mxGetPr = [1, 2, 3, 4, 5, 6]\<rparr>,
              \<lparr>mxIsDouble = True, mxIsComplex = False, mxGetDimensions = [1, 1],
                mxGetPr = [29 / 10]\<rparr>] =
       ([mxCreateNumericArray [2, 3], fftw_malloc,
         fftw_plan_many_r2r 1 2 3 [1, 2, 3, 4, 5, 6] 1 2 1 2 FFTW_REDFT10,
         fftw_execute, fftw_destroy_plan, fftw_free], Inr ())
   \<and> dtt1D 1 [\<lparr>mxIsDouble = True, mxIsComplex = False, mxGetDimensions = [2, 3],
                mxGetPr = [1, 2, 3, 4, 5, 6]\<rparr>,
              \<lparr>mxIsDouble = True, mxIsComplex = False, mxGetDimensions = [1, 1],
                mxGetPr = [89 / 10]\<rparr>] =
       ([mxCreateNumericArray [2, 3], fftw_malloc,
         fftw_plan_many_r2r 1 2 3 [1, 2, 3, 4, 5, 6] 1 2 1 2 FFTW_RODFT11,
         fftw_execute, fftw_destroy_plan, fftw_free], Inr ())
   \<and> dtt2D 1 [\<lparr>mxIsDouble = True, mxIsComplex = False, mxGetDimensions = [2, 3],
                mxGetPr = [1, 2, 3, 4, 5, 6]\<rparr>,
              \<lparr>mxIsDouble = True, mxIsComplex = False, mxGetDimensions = [1, 1],
                mxGetPr = [29 / 10]\<rparr>] =
       ([mxCreateNumericArray [2, 3],
         fftw_plan_r2r_2d 3 2 [1, 2, 3, 4, 5, 6] FFTW_REDFT10 FFTW_REDFT10,
         fftw_execute, fftw_destroy_plan], Inr ())
   \<and> dtt1D 1 [\<lparr>mxIsDouble = True, mxIsComplex = False, mxGetDimensions = [2, 3],
                mxGetPr = [1, 2, 3, 4, 5, 6]\<rparr>,
              \<lparr>mxIsDouble = True, mxIsComplex = False, mxGetDimensions = [1, 1],
                mxGetPr = [2]\<rparr>] =
     dtt1D 1 [\<lparr>mxIsDouble = True, mxIsComplex = False, mxGetDimensions = [2, 3],
                mxGetPr = [1, 2, 3, 4, 5, 6]\<rparr>,
              \<lparr>mxIsDouble = True, mxIsComplex = False, mxGetDimensions = [1, 1],
                mxGetPr = [29 / 10]\<rparr>]
   \<and> dtt2D 1 [\<lparr>mxIsDouble = True, mxIsComplex = False, mxGetDimensions = [2, 3],
                mxGetPr = [1, 2, 3, 4, 5, 6]\<rparr>,
              \<lparr>mxIsDouble = True, mxIsComplex = False, mxGetDimensions = [1, 1],
                mxGetPr = [2]\<rparr>] =
     dtt2D 1 [\<lparr>mxIsDouble = True, mxIsComplex = False, mxGetDimensions = [2, 3],
                mxGetPr = [1, 2, 3, 4, 5, 6]\<rparr>,
              \<lparr>mxIsDouble = True, mxIsComplex = False, mxGetDimensions = [1, 1],
                mxGetPr = [29 / 10]\<rparr>]
   \<and> snd (dtt1D 1 [\<lparr>mxIsDouble = True, mxIsComplex = False, mxGetDimensions = [2, 3],
                mxGetPr = [1, 2, 3, 4, 5, 6]\<rparr>,
              \<lparr>mxIsDouble = True, mxIsComplex = False, mxGetDimensions = [1, 1],
                mxGetPr = [29 / 10]\<rparr>]) \<noteq> Inl InvalidTypeCode"
proof -
  let ?a = "\<lparr>mxIsDouble = True, mxIsComplex = False, mxGetDimensions = [2, 3],
              mxGetPr = [1, 2, 3, 4, 5, 6]\<rparr>"
  let ?t = "\<lparr>mxIsDouble = True, mxIsComplex = False, mxGetDimensions = [1, 1],
              mxGetPr = [29 / 10]\<rparr>"
  let ?u = "\<lparr>mxIsDouble = True, mxIsComplex = False, mxGetDimensions = [1, 1],
              mxGetPr = [89 / 10]\<rparr>"
  have tr: "c_trunc (29 / 10) = 2" "c_trunc (89 / 10) = 8"
    by (simp_all add: c_trunc_def)
  have n: "mxGetNumberOfElements ?t = 1" "mxGetNumberOfElements ?u = 1"
    by (simp_all add: mxGetNumberOfElements_def)
  have dim: "get_DIM [?a, ?t] = Inr 1" "get_DIM [?a, ?u] = Inr 1"
    by (simp_all add: get_DIM_def)
  have s: "int_of_mwSize 2 = 2" "int_of_mwSize 3 = 3"
    by (simp_all add: int_of_mwSize_def)
  have inp1: "get_input_1D ?a = Inr ([2, 3], 2, 3)"
    by (simp add: get_input_1D_def mxGetNumberOfDimensions_def read_dim_def s int_mult_def)
  have inp2: "get_input_2D ?a = Inr ([2, 3], 2, 3)"
    by (simp add: get_input_2D_def mxGetNumberOfDimensions_def read_dim_def s)
  have k: "set_DTT_type 2 = Inr FFTW_REDFT10"
    by (simp add: set_DTT_type_def)
  have pe: "plan_and_execute_1D [1, 2, 3, 4, 5, 6] [2, 3] 2 3 1 2 =
      ([mxCreateNumericArray [2, 3], fftw_malloc,
        fftw_plan_many_r2r 1 2 3 [1, 2, 3, 4, 5, 6] 1 2 1 2 FFTW_REDFT10,
        fftw_execute, fftw_destroy_plan, fftw_free], Inr ())"
    "plan_and_execute_1D [1, 2, 3, 4, 5, 6] [2, 3] 2 3 1 8 =
      ([mxCreateNumericArray [2, 3], fftw_malloc,
        fftw_plan_many_r2r 1 2 3 [1, 2, 3, 4, 5, 6] 1 2 1 2 FFTW_RODFT11,
        fftw_execute, fftw_destroy_plan, fftw_free], Inr ())"
    by (simp_all add: plan_and_execute_1D_def force_DIM_def define_plan_variables_def
        set_DTT_type_def)
  have w: "with_truncated_codes ?t = \<lparr>mxIsDouble = True, mxIsComplex = False,
      mxGetDimensions = [1, 1], mxGetPr = [2]\<rparr>"
    by (simp add: with_truncated_codes_def tr)
  note at29 = type_code_truncated [where v = "29 / 10" and t = ?t and nlhs = 1
      and prhs = "[?a, ?t]" and DIM = 1 and dims = "[2, 3]" and NX = 2 and NY = 3
      and k = FFTW_REDFT10 and a = ?a]
  note at89 = type_code_truncated [where v = "89 / 10" and t = ?u and nlhs = 1
      and prhs = "[?a, ?u]" and DIM = 1 and dims = "[2, 3]" and NX = 2 and NY = 3]
  from at29 have ty: "get_DTT_type_1D ?t = Inr 2"
    using tr n by simp
  from at29 have run29: "dtt1D 1 [?a, ?t] = plan_and_execute_1D [1, 2, 3, 4, 5, 6] [2, 3] 2 3 1 2"
    using tr n dim inp1 by simp
  from at89 have run89: "dtt1D 1 [?a, ?u] = plan_and_execute_1D [1, 2, 3, 4, 5, 6] [2, 3] 2 3 1 8"
    using tr n dim inp1 by simp
  from at29 have run2D: "dtt2D 1 [?a, ?t] =
      ([mxCreateNumericArray [2, 3],
        fftw_plan_r2r_2d 3 2 [1, 2, 3, 4, 5, 6] FFTW_REDFT10 FFTW_REDFT10,
        fftw_execute, fftw_destroy_plan], Inr ())"
    using tr n k inp2 by simp
  from at29 have same:
    "dtt1D 1 [?a, with_truncated_codes ?t] = dtt1D 1 [?a, ?t]"
    "dtt2D 1 [?a, with_truncated_codes ?t] = dtt2D 1 [?a, ?t]"
    "snd (dtt1D 1 [?a, ?t]) \<noteq> Inl InvalidTypeCode"
    by (simp_all add: tr)
  show ?thesis
    using tr ty run29 run89 run2D same unfolding w pe by simp
qed

end
